theory Spec2Isabelle
  imports Main "HOL-Library.Word"
begin

chapter \<open>The program\<close>

section \<open>Process supervisor (watchdog.js)\<close>

text \<open>
  The watchdog keeps two module-level variables, \<open>restartDelay\<close> and \<open>restartCount\<close>.
  The child's \<open>exit\<close> handler reads the clock, possibly resets both, schedules the restart
  with the current delay and only then doubles the delay (capped). All times are
  milliseconds.
\<close>

definition MIN_RESTART_DELAY :: nat where "MIN_RESTART_DELAY = 1000"
definition MAX_RESTART_DELAY :: nat where "MAX_RESTART_DELAY = 60000"
definition RESET_AFTER_MS :: int where "RESET_AFTER_MS = 300000"

record watchdog =
  restartDelay :: nat
  restartCount :: nat

definition watchdog_init :: watchdog where
  "watchdog_init = \<lparr>restartDelay = MIN_RESTART_DELAY, restartCount = 0\<rparr>"

text \<open>
  \<open>on_exit runtime w\<close> is the body of \<open>child.on('exit', ...)\<close>: \<open>runtime\<close> is
  \<open>Date.now() - startedAt\<close>; the result is the delay handed to \<open>setTimeout\<close> and the
  variables afterwards.
\<close>

definition on_exit :: "int \<Rightarrow> watchdog \<Rightarrow> nat \<times> watchdog" where
  "on_exit runtime w =
     (let w1 = (if runtime > RESET_AFTER_MS
                then w\<lparr>restartDelay := MIN_RESTART_DELAY, restartCount := 0\<rparr> else w);
          w2 = w1\<lparr>restartCount := restartCount w1 + 1\<rparr>;
          d = restartDelay w2
      in (d, w2\<lparr>restartDelay := min (d * 2) MAX_RESTART_DELAY\<rparr>))"

text \<open>
  The supervisor over a sequence of child runs: each element is how long that child ran
  before it exited; the result lists the delays used for the successive restarts.
\<close>

fun restart_delays :: "int list \<Rightarrow> watchdog \<Rightarrow> nat list" where
  "restart_delays [] w = []"
| "restart_delays (runtime # rs) w =
     (case on_exit runtime w of (d, w') \<Rightarrow> d # restart_delays rs w')"

section \<open>Data model (friends/<name>.json, request bodies)\<close>

text \<open>
  A JSON value as \<open>JSON.parse\<close> yields it. A number is kept as the text JavaScript renders
  it to (what a template literal produces), which is all the code below asks of a number
  besides truthiness; \<open>-0\<close> renders as \<open>0\<close>. An object lists its own properties, each
  key once.
\<close>

datatype json =
    JNull
  | JBool bool
  | JNum string
  | JStr string
  | JArr "json list"
  | JObj "(string \<times> json) list"

text \<open>JavaScript truthiness of a property read; \<open>None\<close> is \<open>undefined\<close>.\<close>

fun truthy :: "json option \<Rightarrow> bool" where
  "truthy None = False"
| "truthy (Some JNull) = False"
| "truthy (Some (JBool b)) = b"
| "truthy (Some (JNum s)) = (s \<noteq> ''0'')"
| "truthy (Some (JStr s)) = (s \<noteq> [])"
| "truthy (Some (JArr xs)) = True"
| "truthy (Some (JObj kvs)) = True"

text \<open>
  Conversion to a string, as a template literal (\<open>`${name}.json`\<close>), a property key and
  \<open>new Date(x)\<close> perform it on a parsed value; \<open>None\<close> is the \<open>TypeError\<close> they throw.
  An array joins its elements with commas, \<open>null\<close> elements as empty strings. An object
  is rendered by the \<open>toString\<close> it inherits; an own property named \<open>toString\<close> hides that
  one and, coming from JSON, is not a function, and neither its own nor the inherited
  \<open>valueOf\<close> yields a primitive, so the conversion throws.
\<close>

fun join_comma :: "string list \<Rightarrow> string" where
  "join_comma [] = []"
| "join_comma [s] = s"
| "join_comma (s # t # ss) = s @ '','' @ join_comma (t # ss)"

fun tostr :: "json \<Rightarrow> string option"
  and tostr_elements :: "json list \<Rightarrow> string list option" where
  "tostr JNull = Some ''null''"
| "tostr (JBool b) = Some (if b then ''true'' else ''false'')"
| "tostr (JNum s) = Some s"
| "tostr (JStr s) = Some s"
| "tostr (JArr xs) = map_option join_comma (tostr_elements xs)"
| "tostr (JObj kvs) = (if map_of kvs ''toString'' = None then Some ''[object Object]'' else None)"
| "tostr_elements [] = Some []"
| "tostr_elements (x # xs) =
     (case (if x = JNull then Some [] else tostr x) of
        None \<Rightarrow> None
      | Some s \<Rightarrow> map_option ((#) s) (tostr_elements xs))"

text \<open>What the handlers and scripts below can throw.\<close>

datatype js_exception = TypeError | BodyRejected

text \<open>One entry of \<open>conversation_history\<close>: \<open>{from, message, timestamp, direction}\<close>.\<close>

record message =
  msg_from :: json
  msg_message :: json
  msg_timestamp :: json
  msg_direction :: string

text \<open>
  A friend file, with the fields as \<open>/pair-request\<close> and the scripts write them from
  strings. \<open>conversation_history\<close> may be absent from the file, which the code handles
  with \<open>friend.conversation_history || []\<close>.
\<close>

record friend =
  name :: string
  webhook_url :: string
  token :: string
  status :: string
  paired_at :: "string option"
  last_heartbeat :: "string option"
  last_message_at :: "string option"
  conversation_history :: "message list option"

text \<open>
  The friend files. \<open>loadFriend\<close>, \<open>saveFriend\<close> and \<open>deleteFriend\<close> of lib/config.js read,
  write and unlink the file \<open>path.join(FRIENDS_DIR, `${name}.json`)\<close>. \<open>path.join\<close>
  resolves \<open>.\<close> and \<open>..\<close> segments, so different names can denote one file (\<open>./bob\<close> and
  \<open>bob\<close>); it is taken as given, as the function \<open>friendFile\<close> from a name to the file it
  denotes. The store maps a file to the record it holds; every file that a name reaches
  is taken to hold a friend record (what \<open>saveFriend\<close> writes), and failures of the file
  system itself are left out.
\<close>

type_synonym friends = "string \<rightharpoonup> friend"

definition loadFriend :: "(string \<Rightarrow> string) \<Rightarrow> string \<Rightarrow> friends \<Rightarrow> friend option" where
  "loadFriend friendFile nm fs = fs (friendFile nm)"

definition saveFriend :: "(string \<Rightarrow> string) \<Rightarrow> string \<Rightarrow> friend \<Rightarrow> friends \<Rightarrow> friends" where
  "saveFriend friendFile nm d fs = fs(friendFile nm \<mapsto> d)"

definition deleteFriend :: "(string \<Rightarrow> string) \<Rightarrow> string \<Rightarrow> friends \<Rightarrow> friends" where
  "deleteFriend friendFile nm fs = fs(friendFile nm := None)"

text \<open>
  \<open>isValidName\<close>, the test \<open>/pair-request\<close> puts a new friend's name to:
  \<open>/^[a-zA-Z0-9_-]+$/.test(name) && name.length <= 64\<close>.
\<close>

definition name_characters :: string where
  "name_characters = ''abcdefghijklmnopqrstuvwxyzABCDEFGHIJKLMNOPQRSTUVWXYZ0123456789_-''"

definition isValidName :: "string \<Rightarrow> bool" where
  "isValidName nm = (nm \<noteq> [] \<and> list_all (\<lambda>c. c \<in> set name_characters) nm \<and> length nm \<le> 64)"

text \<open>\<open>xs.slice(-n)\<close>: the last \<open>n\<close> elements, all of them when there are fewer.\<close>

definition slice_last :: "nat \<Rightarrow> 'a list \<Rightarrow> 'a list" where
  "slice_last n xs = drop (length xs - n) xs"

section \<open>Removing a friend (remove-friend.js)\<close>

text \<open>
  The script takes the name from \<open>process.argv\<close> (\<open>None\<close>: no argument; an empty argument
  is falsy too), prints to the console and ends with \<open>process.exit(1)\<close> on failure or
  falls off the end of \<open>main\<close> on success. The result is the exit status and the friend
  files afterwards. There is no test of \<open>friend.status\<close>.
\<close>

datatype exit_status = Exit_ok | Exit_1

definition remove_friend_main ::
  "(string \<Rightarrow> string) \<Rightarrow> string option \<Rightarrow> friends \<Rightarrow> exit_status \<times> friends" where
  "remove_friend_main friendFile friendName fs =
     (case friendName of
        None \<Rightarrow> (Exit_1, fs)
      | Some nm \<Rightarrow>
          if nm = [] then (Exit_1, fs)
          else (case loadFriend friendFile nm fs of
                  None \<Rightarrow> (Exit_1, fs)
                | Some fr \<Rightarrow> (Exit_ok, deleteFriend friendFile nm fs)))"

section \<open>Rate limiting (lib/auth.js)\<close>

definition RATE_LIMIT_WINDOW_MS :: int where "RATE_LIMIT_WINDOW_MS = 60 * 1000"
definition RATE_LIMIT_MAX :: nat where "RATE_LIMIT_MAX = 10"

record rate_entry =
  count :: nat
  windowStart :: int

text \<open>A JavaScript number that may be \<open>NaN\<close>.\<close>

datatype jsnum = Num int | NaN

record rate_result =
  allowed :: bool
  remaining :: jsnum

text \<open>
  \<open>rateLimits\<close> is an ordinary object literal \<open>{}\<close> indexed by the caller's string, so a
  read \<open>rateLimits[friendName]\<close> finds the object's own properties first and then what
  every object inherits from \<open>Object.prototype\<close>. The map holds the own properties; the
  inherited names are these, each bound to a function or object (truthy) that has no
  \<open>windowStart\<close> and no numeric \<open>count\<close>.
\<close>

type_synonym rateLimits = "string \<rightharpoonup> rate_entry"

definition object_prototype_keys :: "string list" where
  "object_prototype_keys =
     [''constructor'', ''__defineGetter__'', ''__defineSetter__'', ''hasOwnProperty'',
      ''__lookupGetter__'', ''__lookupSetter__'', ''isPrototypeOf'', ''propertyIsEnumerable'',
      ''toString'', ''valueOf'', ''__proto__'', ''toLocaleString'']"

text \<open>
  \<open>checkRateLimit now friendName rl\<close>: \<open>now\<close> is \<open>Date.now()\<close>. For an inherited entry
  \<open>now - entry.windowStart\<close> is \<open>NaN\<close> and \<open>entry.count\<close> is \<open>undefined\<close> (\<open>NaN\<close> after the
  first \<open>entry.count++\<close>); every comparison with them is false, so the call falls through to
  the last \<open>return\<close> with \<open>remaining = 10 - NaN\<close> and creates no own property.
\<close>

definition checkRateLimit :: "int \<Rightarrow> string \<Rightarrow> rateLimits \<Rightarrow> rate_result \<times> rateLimits" where
  "checkRateLimit now friendName rl =
     (case rl friendName of
        Some entry \<Rightarrow>
          if now - windowStart entry > RATE_LIMIT_WINDOW_MS
          then (\<lparr>allowed = True, remaining = Num (int RATE_LIMIT_MAX - 1)\<rparr>,
                rl(friendName \<mapsto> \<lparr>count = 1, windowStart = now\<rparr>))
          else if count entry \<ge> RATE_LIMIT_MAX
          then (\<lparr>allowed = False, remaining = Num 0\<rparr>, rl)
          else (\<lparr>allowed = True, remaining = Num (int RATE_LIMIT_MAX - int (count entry + 1))\<rparr>,
                rl(friendName \<mapsto> entry\<lparr>count := count entry + 1\<rparr>))
      | None \<Rightarrow>
          if friendName \<in> set object_prototype_keys
          then (\<lparr>allowed = True, remaining = NaN\<rparr>, rl)
          else (\<lparr>allowed = True, remaining = Num (int RATE_LIMIT_MAX - 1)\<rparr>,
                rl(friendName \<mapsto> \<lparr>count = 1, windowStart = now\<rparr>)))"

text \<open>A subject calling at the given instants, one after the other.\<close>

fun rate_calls :: "int list \<Rightarrow> string \<Rightarrow> rateLimits \<Rightarrow> rate_result list \<times> rateLimits" where
  "rate_calls [] friendName rl = ([], rl)"
| "rate_calls (now # ts) friendName rl =
     (case checkRateLimit now friendName rl of
        (r, rl') \<Rightarrow> (case rate_calls ts friendName rl' of (rs, rl'') \<Rightarrow> (r # rs, rl'')))"

section \<open>Bearer tokens (lib/auth.js)\<close>

text \<open>\<open>s.split(c)\<close> for a one-character separator: one part more than there are separators.\<close>

fun split_on :: "char \<Rightarrow> string \<Rightarrow> string list" where
  "split_on c [] = [[]]"
| "split_on c (x # xs) =
     (if x = c then [] # split_on c xs
      else (case split_on c xs of p # ps \<Rightarrow> (x # p) # ps | [] \<Rightarrow> [[x]]))"

record verify_result =
  valid :: bool
  error :: "string option"

text \<open>
  \<open>authHeader\<close> is \<open>req.headers['authorization']\<close> (\<open>None\<close>: no such header). The last two
  tests compare the UTF-8 encodings of the two tokens, first their lengths and then, with
  \<open>crypto.timingSafeEqual\<close>, their bytes; both failures give the same result, and the
  encodings of a header value and a stored token are equal exactly when the strings are.
\<close>

definition verifyBearerToken :: "string option \<Rightarrow> string \<Rightarrow> verify_result" where
  "verifyBearerToken authHeader expectedToken =
     (case authHeader of
        None \<Rightarrow> \<lparr>valid = False, error = Some ''Missing Authorization header''\<rparr>
      | Some h \<Rightarrow>
          if h = [] then \<lparr>valid = False, error = Some ''Missing Authorization header''\<rparr>
          else
            let parts = split_on CHR '' '' h in
            if length parts \<noteq> 2 \<or> parts ! 0 \<noteq> ''Bearer''
            then \<lparr>valid = False,
                  error = Some ''Invalid Authorization format. Expected: Bearer <token>''\<rparr>
            else
              let tok = parts ! 1 in
              if tok = [] \<or> length tok < 20
              then \<lparr>valid = False, error = Some ''Token too short''\<rparr>
              else if length expectedToken \<noteq> length tok
              then \<lparr>valid = False, error = Some ''Invalid token''\<rparr>
              else if expectedToken \<noteq> tok
              then \<lparr>valid = False, error = Some ''Invalid token''\<rparr>
              else \<lparr>valid = True, error = None\<rparr>)"

section \<open>Configuration and cooldown (lib/config.js)\<close>

text \<open>
  What \<open>getConfig\<close> returns, as far as the code below reads it. The two numbers come from
  \<open>parseInt\<close> and are \<open>NaN\<close> when the variable does not start with digits.
\<close>

record config =
  agentName :: string
  friendMode :: string
  maxExchangesPerConvo :: jsnum
  cooldownMinutes :: jsnum

text \<open>Arithmetic and comparison of JavaScript numbers: \<open>NaN\<close> absorbs, and compares false.\<close>

fun js_minus :: "jsnum \<Rightarrow> jsnum \<Rightarrow> jsnum" where
  "js_minus (Num a) (Num b) = Num (a - b)"
| "js_minus _ _ = NaN"

fun js_times :: "jsnum \<Rightarrow> jsnum \<Rightarrow> jsnum" where
  "js_times (Num a) (Num b) = Num (a * b)"
| "js_times _ _ = NaN"

fun js_greater :: "jsnum \<Rightarrow> jsnum \<Rightarrow> bool" where
  "js_greater (Num a) (Num b) = (a > b)"
| "js_greater _ _ = False"

fun js_greater_eq :: "jsnum \<Rightarrow> jsnum \<Rightarrow> bool" where
  "js_greater_eq (Num a) (Num b) = (a \<ge> b)"
| "js_greater_eq _ _ = False"

text \<open>
  What the handlers and scripts use of Node's library, of the shell and of the parts of
  the skill that are not modelled, taken as given:
  \<^item> \<open>friendFile name\<close> is the file \<open>path.join(FRIENDS_DIR, `${name}.json`)\<close> denotes;
  \<^item> \<open>toISOString ms\<close> is \<open>new Date(ms).toISOString()\<close>;
  \<^item> \<open>getTime x\<close> is \<open>new Date(x).getTime()\<close> for a value that \<open>new Date\<close> can convert
    (\<open>tostr x\<close> is not \<open>None\<close>), \<open>NaN\<close> for what is not a date;
  \<^item> \<open>decrypt m tok\<close> is \<open>decryptMessage(m, tok)\<close> of lib/crypto.js on a request's
    \<open>message\<close>, \<open>None\<close> for \<open>null\<close>;
  \<^item> \<open>fileNote from p\<close> is what the \<open>try\<close> block for a file message leaves in \<open>plaintext\<close>:
    the \<open>[FILE: ...]\<close> line when the attachment was parsed and written, \<open>p\<close> itself when
    the block threw before the assignment;
  \<^item> \<open>fileWrite from p fs\<close> is the friend files after that block: the attachment goes to
    \<open>path.join(filesDir, fileData.filename)\<close> with a file name the sender chooses, which
    can be a friend file;
  \<^item> \<open>shellCommand from fs\<close> is the friend files after the shell has run the command line
    \<open>node "<skill>/index.js" reply ${from}\<close> for a name the shell does not read as one
    word;
  \<^item> \<open>canRequest friend\<close> says that \<open>new URL('/message', friend.webhook_url)\<close> and
    \<open>transport.request\<close> with the header \<open>`Bearer ${friend.token}`\<close> do not throw.

  Notifications (lib/telegram.js), console output and the per-friend files
  \<open>conversation.md\<close> and \<open>context.md\<close> below the memory directory are no friend files and
  are not part of the state.
\<close>

record node_env =
  friendFile :: "string \<Rightarrow> string"
  toISOString :: "int \<Rightarrow> string"
  getTime :: "json \<Rightarrow> jsnum"
  decrypt :: "json \<Rightarrow> string \<Rightarrow> string option"
  fileNote :: "json \<Rightarrow> json \<Rightarrow> json"
  fileWrite :: "json \<Rightarrow> json \<Rightarrow> friends \<Rightarrow> friends"
  shellCommand :: "string \<Rightarrow> friends \<Rightarrow> friends"
  canRequest :: "friend \<Rightarrow> bool"

text \<open>
  \<open>getRecentExchangeCount\<close>; \<open>now\<close> is \<open>Date.now()\<close>. An empty array is truthy, so only a
  missing history returns early. The filter builds \<open>new Date(m.timestamp)\<close> for every
  entry, which throws for a stored timestamp that cannot be converted; a timestamp that
  converts but is no date has the time \<open>NaN\<close>. The only test is \<open>msgTime > cutoff\<close>.
\<close>

definition getRecentExchangeCount ::
  "node_env \<Rightarrow> int \<Rightarrow> string \<Rightarrow> jsnum \<Rightarrow> friends \<Rightarrow> js_exception + nat" where
  "getRecentExchangeCount env now friendName windowMinutes fs =
     (case loadFriend (friendFile env) friendName fs of
        None \<Rightarrow> Inr 0
      | Some fr \<Rightarrow>
          (case conversation_history fr of
             None \<Rightarrow> Inr 0
           | Some h \<Rightarrow>
               let cutoff = js_minus (Num now) (js_times (js_times windowMinutes (Num 60)) (Num 1000))
               in if list_ex (\<lambda>m. tostr (msg_timestamp m) = None) h then Inl TypeError
                  else Inr (length (filter (\<lambda>m. js_greater (getTime env (msg_timestamp m)) cutoff) h))))"

text \<open>
  The cooldown evaluation of \<open>handleMessage\<close> (server.js, lines 261 to 264):
  \<open>recentExchanges\<close> and \<open>overCooldown\<close>.
\<close>

definition cooldown_check ::
  "node_env \<Rightarrow> config \<Rightarrow> int \<Rightarrow> string \<Rightarrow> friends \<Rightarrow> js_exception + nat \<times> bool" where
  "cooldown_check env cfg now friendName fs =
     (case getRecentExchangeCount env now friendName (cooldownMinutes cfg) fs of
        Inl ex \<Rightarrow> Inl ex
      | Inr recentExchanges \<Rightarrow>
          Inr (recentExchanges,
               js_greater_eq (Num (int recentExchanges)) (maxExchangesPerConvo cfg)))"
section \<open>The webhook server (scripts/server.js)\<close>

text \<open>
  Reading a property of a parsed body. A body that is an array, a string, a number or a
  boolean has none of the properties read here, so the read yields \<open>undefined\<close>; reading
  a property of \<open>null\<close> throws, which the callers below test for before they read.
\<close>

fun get_prop :: "json \<Rightarrow> string \<Rightarrow> json option" where
  "get_prop (JObj kvs) k = map_of kvs k"
| "get_prop _ k = None"

text \<open>\<open>s.includes(t)\<close>.\<close>

fun starts_with :: "string \<Rightarrow> string \<Rightarrow> bool" where
  "starts_with s [] = True"
| "starts_with [] (y # ys) = False"
| "starts_with (x # xs) (y # ys) = (x = y \<and> starts_with xs ys)"

fun str_includes :: "string \<Rightarrow> string \<Rightarrow> bool" where
  "str_includes [] t = (t = [])"
| "str_includes (x # xs) t = (starts_with (x # xs) t \<or> str_includes xs t)"

text \<open>
  A request as the server sees it: method, \<open>url.pathname\<close>, the two headers it reads and
  what \<open>parseBody\<close> makes of the body (\<open>None\<close>: the promise is rejected, for a body over
  1 MB or one that is not JSON; an empty body resolves to \<open>{}\<close>).
\<close>

record request =
  req_method :: string
  req_route :: string
  content_type :: "string option"
  authorization :: "string option"
  req_body :: "json option"

text \<open>The JSON bodies the message route sends.\<close>

datatype reply =
    ErrorBody string                 \<comment> \<open>\<open>{error}\<close>\<close>
  | RateLimitBody string int         \<comment> \<open>\<open>{error, retryAfterMs}\<close>\<close>
  | DeliveredBody jsnum              \<comment> \<open>\<open>{status: 'delivered', message: 'Message received', remaining}\<close>\<close>

fun has_error_field :: "reply \<Rightarrow> bool" where
  "has_error_field (ErrorBody e) = True"
| "has_error_field (RateLimitBody e r) = True"
| "has_error_field (DeliveredBody r) = False"

record response =
  statusCode :: nat
  body :: reply

text \<open>The server's mutable state: the friends directory and the in-memory rate table.\<close>

record server_state =
  friends_dir :: friends
  rate_table :: rateLimits

text \<open>
  \<open>authenticateFriend\<close>: \<open>Inl\<close> is an exception thrown (reading \<open>from\<close> of a \<open>null\<close> body,
  or building the file name from a \<open>from\<close> that cannot be converted to a string);
  otherwise the returned object, \<open>{error}\<close> or \<open>{friend}\<close>.
\<close>

definition authenticateFriend ::
  "node_env \<Rightarrow> request \<Rightarrow> json \<Rightarrow> friends \<Rightarrow> js_exception + (string + friend)" where
  "authenticateFriend env req bdy fs =
     (if bdy = JNull then Inl TypeError
      else
        let friendName = get_prop bdy ''from'' in
        if \<not> truthy friendName then Inr (Inl ''Missing \"from\" field'')
        else
          (case tostr (the friendName) of
             None \<Rightarrow> Inl TypeError
           | Some nm \<Rightarrow>
               (case loadFriend (friendFile env) nm fs of
                  None \<Rightarrow> Inr (Inl (''Unknown agent: '' @ nm))
                | Some fr \<Rightarrow>
                    if status fr \<noteq> ''paired'' \<and> status fr \<noteq> ''pending''
                    then Inr (Inl (''Not paired with: '' @ nm))
                    else
                      let authResult = verifyBearerToken (authorization req) (token fr) in
                      if \<not> valid authResult then Inr (Inl (the (error authResult)))
                      else Inr (Inr fr))))"

text \<open>
  The last ten stored entries go into the context file through the template literal
  \<open>`- **${m.from}** (${m.timestamp}): ${m.message}`\<close>, which throws when one of the three
  cannot be converted.
\<close>

definition context_line :: "message \<Rightarrow> string option" where
  "context_line m =
     (case tostr (msg_from m) of
        None \<Rightarrow> None
      | Some f \<Rightarrow>
          (case tostr (msg_timestamp m) of
             None \<Rightarrow> None
           | Some t \<Rightarrow>
               (case tostr (msg_message m) of
                  None \<Rightarrow> None
                | Some msg \<Rightarrow> Some (''- **'' @ f @ ''** ('' @ t @ ''): '' @ msg))))"

text \<open>
  \<open>handleMessage\<close>. \<open>now\<close> is the clock during the request. The result is what the
  handler did, an exception (the promise is rejected) or the response sent together
  with whether the automatic reply was triggered, and the state it left. The steps
  that can throw are, in the order of the code:
  \<^item> before anything is stored, \<open>console.log(`... ${plaintext}`)\<close> for a message that is
    not a file message;
  \<^item> after \<open>saveFriend\<close>, \<open>appendToConversationLog\<close>: \<open>path.join(MEMORY_DIR, from)\<close> for a
    \<open>from\<close> that is not a string, and the template literal over \<open>plaintext\<close>;
  \<^item> \<open>getRecentExchangeCount\<close> over the history just stored;
  \<^item> the context lines of the last ten entries.

  In \<open>auto\<close> mode below the cooldown the handler runs the \<open>reply\<close> command through the
  shell with \<open>from\<close> pasted into the command line. scripts/reply.js only reads, so for a
  name that passes \<open>isValidName\<close>, which the shell reads as one word, no file changes;
  for any other name the shell decides.
\<close>

definition handleMessage ::
  "node_env \<Rightarrow> config \<Rightarrow> int \<Rightarrow> request \<Rightarrow> server_state
     \<Rightarrow> (js_exception + response \<times> bool) \<times> server_state" where
  "handleMessage env cfg now req st =
     (case req_body req of
        None \<Rightarrow> (Inl BodyRejected, st)
      | Some bdy \<Rightarrow>
          (case authenticateFriend env req bdy (friends_dir st) of
             Inl ex \<Rightarrow> (Inl ex, st)
           | Inr (Inl err) \<Rightarrow> (Inr (\<lparr>statusCode = 401, body = ErrorBody err\<rparr>, False), st)
           | Inr (Inr fr) \<Rightarrow>
               let from = the (get_prop bdy ''from'');
                   nm = the (tostr from);
                   timestamp = get_prop bdy ''timestamp'';
                   msg = get_prop bdy ''message''
               in
               if \<not> truthy msg
               then (Inr (\<lparr>statusCode = 400, body = ErrorBody ''Missing \"message\" field''\<rparr>,
                          False), st)
               else
                 (case checkRateLimit now nm (rate_table st) of
                    (rateCheck, rl) \<Rightarrow>
                      if \<not> allowed rateCheck
                      then (Inr (\<lparr>statusCode = 429,
                                  body = RateLimitBody ''Rate limit exceeded'' 60000\<rparr>, False),
                            st\<lparr>rate_table := rl\<rparr>)
                      else
                        let isFileMessage = (get_prop bdy ''message_type'' = Some (JStr ''file''));
                            decrypted =
                              (if truthy (get_prop bdy ''encrypted'')
                               then map_option JStr (decrypt env (the msg) (token fr))
                               else Some (the msg))
                        in
                        (case decrypted of
                           None \<Rightarrow>
                             (Inr (\<lparr>statusCode = 400,
                                    body = ErrorBody (''Decryption failed ''
                                      @ [CHR 0xE2, CHR 0x80, CHR 0x94]
                                      @ '' message tampered or wrong key'')\<rparr>, False),
                              st\<lparr>rate_table := rl\<rparr>)
                         | Some plaintext0 \<Rightarrow>
                             if \<not> isFileMessage \<and> tostr plaintext0 = None
                             then (Inl TypeError, st\<lparr>rate_table := rl\<rparr>)
                             else
                               let plaintext =
                                     (if isFileMessage then fileNote env from plaintext0
                                      else plaintext0);
                                   files =
                                     (if isFileMessage
                                      then fileWrite env from plaintext0 (friends_dir st)
                                      else friends_dir st);
                                   entry = \<lparr>msg_from = from, msg_message = plaintext,
                                            msg_timestamp =
                                              (if truthy timestamp then the timestamp
                                               else JStr (toISOString env now)),
                                            msg_direction = ''incoming''\<rparr>;
                                   pushed =
                                     (case conversation_history fr of None \<Rightarrow> [] | Some h \<Rightarrow> h)
                                     @ [entry];
                                   kept = (if length pushed > 100 then slice_last 100 pushed
                                           else pushed);
                                   fr' = fr\<lparr>conversation_history := Some kept,
                                            last_message_at := Some (toISOString env now)\<rparr>;
                                   fs' = saveFriend (friendFile env) nm fr' files;
                                   st' = st\<lparr>friends_dir := fs', rate_table := rl\<rparr>
                               in
                               if (case from of JStr s \<Rightarrow> False | _ \<Rightarrow> True)
                                  \<or> tostr plaintext = None
                               then (Inl TypeError, st')
                               else
                                 (case cooldown_check env cfg now nm fs' of
                                    Inl ex \<Rightarrow> (Inl ex, st')
                                  | Inr (recentExchanges, overCooldown) \<Rightarrow>
                                      if list_ex (\<lambda>m. context_line m = None) (slice_last 10 kept)
                                      then (Inl TypeError, st')
                                      else
                                        let auto_reply =
                                              (friendMode cfg = ''auto'' \<and> \<not> overCooldown)
                                        in
                                        (Inr (\<lparr>statusCode = 200,
                                               body = DeliveredBody (remaining rateCheck)\<rparr>,
                                              auto_reply),
                                         if auto_reply \<and> \<not> isValidName nm
                                         then st'\<lparr>friends_dir := shellCommand env nm fs'\<rparr>
                                         else st'))))))"

text \<open>
  The request listener of \<open>startServer\<close> on a \<open>POST\<close> to \<open>/message\<close>: the content type is
  checked first, and whatever the handler throws becomes a 500, with the state as the
  handler left it.
\<close>

definition serve_post_message ::
  "node_env \<Rightarrow> config \<Rightarrow> int \<Rightarrow> request \<Rightarrow> server_state \<Rightarrow> response \<times> server_state" where
  "serve_post_message env cfg now req st =
     (let contentType = (case content_type req of None \<Rightarrow> [] | Some c \<Rightarrow> c) in
      if \<not> str_includes contentType ''application/json''
      then (\<lparr>statusCode = 415, body = ErrorBody ''Content-Type must be application/json''\<rparr>, st)
      else
        (case handleMessage env cfg now req st of
           (Inl ex, st') \<Rightarrow>
             (\<lparr>statusCode = 500, body = ErrorBody ''Internal server error''\<rparr>, st')
         | (Inr (res, auto_reply), st') \<Rightarrow> (res, st')))"

section \<open>Sending a message (scripts/send-message.js)\<close>



section \<open>End-to-end encryption (lib/crypto.js)\<close>

text \<open>
  A JavaScript string is a sequence of 16-bit code units, a \<open>Buffer\<close> a sequence of bytes.
  The base64 text of a packed message is kept as a \<open>string\<close>.
\<close>

type_synonym jstring = "16 word list"
type_synonym buffer = "8 word list"

subsection \<open>Strings to bytes and back\<close>

text \<open>
  \<open>Buffer.from(s, 'utf8')\<close>, which \<open>cipher.update(plaintext, 'utf8')\<close> and
  \<open>hash.update(token)\<close> apply to their string: surrogate pairs are combined into one code
  point, a surrogate without its partner is replaced by U+FFFD, and each code point is
  written in one to four bytes.
\<close>

definition is_high_surrogate :: "nat \<Rightarrow> bool" where
  "is_high_surrogate u = (0xD800 \<le> u \<and> u < 0xDC00)"

definition is_low_surrogate :: "nat \<Rightarrow> bool" where
  "is_low_surrogate u = (0xDC00 \<le> u \<and> u < 0xE000)"

fun code_points :: "nat list \<Rightarrow> nat list" where
  "code_points [] = []"
| "code_points [u] = (if is_high_surrogate u \<or> is_low_surrogate u then [0xFFFD] else [u])"
| "code_points (u # l # us) =
     (if is_high_surrogate u
      then (if is_low_surrogate l
            then (0x10000 + (u - 0xD800) * 1024 + (l - 0xDC00)) # code_points us
            else 0xFFFD # code_points (l # us))
      else if is_low_surrogate u then 0xFFFD # code_points (l # us)
      else u # code_points (l # us))"

definition utf8_bytes :: "nat \<Rightarrow> nat list" where
  "utf8_bytes cp =
     (if cp < 0x80 then [cp]
      else if cp < 0x800 then [0xC0 + cp div 64, 0x80 + cp mod 64]
      else if cp < 0x10000
      then [0xE0 + cp div 4096, 0x80 + cp div 64 mod 64, 0x80 + cp mod 64]
      else [0xF0 + cp div 262144, 0x80 + cp div 4096 mod 64, 0x80 + cp div 64 mod 64,
            0x80 + cp mod 64])"

definition utf8_encode :: "jstring \<Rightarrow> buffer" where
  "utf8_encode s = map of_nat (concat (map utf8_bytes (code_points (map unat s))))"

text \<open>
  \<open>buf.toString('utf8')\<close>: the decoder of the Encoding Standard without its byte order
  mark handling. A byte that cannot start or continue a sequence ends the sequence
  read so far, which becomes one U+FFFD, and is read again as a first byte.
\<close>

definition is_continuation :: "nat \<Rightarrow> bool" where
  "is_continuation b = (0x80 \<le> b \<and> b \<le> 0xBF)"

function utf8_code_points :: "nat list \<Rightarrow> nat list" where
  "utf8_code_points [] = []"
| "utf8_code_points (b0 # bs) =
     (if b0 < 0x80 then b0 # utf8_code_points bs
      else if 0xC2 \<le> b0 \<and> b0 \<le> 0xDF then
        (case bs of
           [] \<Rightarrow> [0xFFFD]
         | b1 # r1 \<Rightarrow>
             if is_continuation b1
             then ((b0 - 0xC0) * 64 + (b1 - 0x80)) # utf8_code_points r1
             else 0xFFFD # utf8_code_points bs)
      else if 0xE0 \<le> b0 \<and> b0 \<le> 0xEF then
        (case bs of
           [] \<Rightarrow> [0xFFFD]
         | b1 # r1 \<Rightarrow>
             if (if b0 = 0xE0 then 0xA0 else 0x80) \<le> b1
                \<and> b1 \<le> (if b0 = 0xED then 0x9F else 0xBF)
             then (case r1 of
                     [] \<Rightarrow> [0xFFFD]
                   | b2 # r2 \<Rightarrow>
                       if is_continuation b2
                       then ((b0 - 0xE0) * 4096 + (b1 - 0x80) * 64 + (b2 - 0x80))
                            # utf8_code_points r2
                       else 0xFFFD # utf8_code_points r1)
             else 0xFFFD # utf8_code_points bs)
      else if 0xF0 \<le> b0 \<and> b0 \<le> 0xF4 then
        (case bs of
           [] \<Rightarrow> [0xFFFD]
         | b1 # r1 \<Rightarrow>
             if (if b0 = 0xF0 then 0x90 else 0x80) \<le> b1
                \<and> b1 \<le> (if b0 = 0xF4 then 0x8F else 0xBF)
             then (case r1 of
                     [] \<Rightarrow> [0xFFFD]
                   | b2 # r2 \<Rightarrow>
                       if is_continuation b2
                       then (case r2 of
                               [] \<Rightarrow> [0xFFFD]
                             | b3 # r3 \<Rightarrow>
                                 if is_continuation b3
                                 then ((b0 - 0xF0) * 262144 + (b1 - 0x80) * 4096
                                       + (b2 - 0x80) * 64 + (b3 - 0x80))
                                      # utf8_code_points r3
                                 else 0xFFFD # utf8_code_points r2)
                       else 0xFFFD # utf8_code_points r1)
             else 0xFFFD # utf8_code_points bs)
      else 0xFFFD # utf8_code_points bs)"
  by pat_completeness auto
termination
  by (relation "measure length") auto

definition code_units :: "nat \<Rightarrow> nat list" where
  "code_units cp =
     (if cp < 0x10000 then [cp]
      else [0xD800 + (cp - 0x10000) div 1024, 0xDC00 + (cp - 0x10000) mod 1024])"

definition utf8_decode :: "buffer \<Rightarrow> jstring" where
  "utf8_decode b = map of_nat (concat (map code_units (utf8_code_points (map unat b))))"

text \<open>A string without unpaired surrogates (what \<open>String.prototype.isWellFormed\<close> tests).\<close>

fun well_formed_units :: "nat list \<Rightarrow> bool" where
  "well_formed_units [] = True"
| "well_formed_units [u] = (\<not> is_high_surrogate u \<and> \<not> is_low_surrogate u)"
| "well_formed_units (u # l # us) =
     (if is_high_surrogate u then is_low_surrogate l \<and> well_formed_units us
      else \<not> is_low_surrogate u \<and> well_formed_units (l # us))"

definition isWellFormed :: "jstring \<Rightarrow> bool" where
  "isWellFormed s = well_formed_units (map unat s)"

subsection \<open>Base64\<close>

definition base64_alphabet :: string where
  "base64_alphabet = ''ABCDEFGHIJKLMNOPQRSTUVWXYZabcdefghijklmnopqrstuvwxyz0123456789+/''"

text \<open>\<open>buf.toString('base64')\<close>: three bytes become four characters, with \<open>=\<close> padding.\<close>

fun sextets :: "nat list \<Rightarrow> nat list" where
  "sextets [] = []"
| "sextets [a] = [a div 4, a mod 4 * 16]"
| "sextets [a, b] = [a div 4, a mod 4 * 16 + b div 16, b mod 16 * 4]"
| "sextets (a # b # c # bs) =
     [a div 4, a mod 4 * 16 + b div 16, b mod 16 * 4 + c div 64, c mod 64] @ sextets bs"

definition base64_encode :: "buffer \<Rightarrow> string" where
  "base64_encode b =
     map (\<lambda>s. base64_alphabet ! s) (sextets (map unat b))
     @ (if length b mod 3 = 1 then ''=='' else if length b mod 3 = 2 then ''='' else [])"

text \<open>
  \<open>Buffer.from(s, 'base64')\<close>: Node's decoder also accepts the URL-safe characters, skips
  every character outside the alphabet and stops at the first \<open>=\<close>; a group left
  incomplete at the end yields the bytes its characters determine.
\<close>

fun index_of :: "char \<Rightarrow> string \<Rightarrow> nat option" where
  "index_of c [] = None"
| "index_of c (x # xs) = (if c = x then Some 0 else map_option Suc (index_of c xs))"

definition unbase64 :: "char \<Rightarrow> nat option" where
  "unbase64 c =
     (case index_of c base64_alphabet of
        Some i \<Rightarrow> Some i
      | None \<Rightarrow> if c = CHR ''-'' then Some 62 else if c = CHR ''_'' then Some 63 else None)"

fun octets :: "nat list \<Rightarrow> nat list" where
  "octets (s1 # s2 # s3 # s4 # ss) =
     [s1 * 4 + s2 div 16, s2 mod 16 * 16 + s3 div 4, s3 mod 4 * 64 + s4] @ octets ss"
| "octets [s1, s2, s3] = [s1 * 4 + s2 div 16, s2 mod 16 * 16 + s3 div 4]"
| "octets [s1, s2] = [s1 * 4 + s2 div 16]"
| "octets [s1] = []"
| "octets [] = []"

definition base64_decode :: "string \<Rightarrow> buffer" where
  "base64_decode s =
     map of_nat (octets (List.map_filter unbase64 (takeWhile (\<lambda>c. c \<noteq> CHR ''='') s)))"

subsection \<open>The cipher\<close>

text \<open>
  Node's \<open>crypto\<close> module, taken as given:
  \<^item> \<open>sha256 b\<close> is \<open>createHash('sha256').update(b).digest()\<close>;
  \<^item> \<open>gcm_encrypt key iv p\<close> is the ciphertext (\<open>update\<close> then \<open>final\<close>) and the
    authentication tag (\<open>getAuthTag\<close>) of \<open>createCipheriv('aes-256-gcm', key, iv)\<close>;
  \<^item> \<open>gcm_decrypt key iv tag c\<close> is the plaintext \<open>createDecipheriv\<close>, \<open>setAuthTag\<close>,
    \<open>update\<close> and \<open>final\<close> produce, \<open>None\<close> when one of them throws (a tag that does not
    verify, a tag or nonce of a length the cipher refuses).
\<close>

record node_crypto =
  sha256 :: "buffer \<Rightarrow> buffer"
  gcm_encrypt :: "buffer \<Rightarrow> buffer \<Rightarrow> buffer \<Rightarrow> buffer \<times> buffer"
  gcm_decrypt :: "buffer \<Rightarrow> buffer \<Rightarrow> buffer \<Rightarrow> buffer \<Rightarrow> buffer option"

definition IV_LENGTH :: nat where "IV_LENGTH = 12"
definition TAG_LENGTH :: nat where "TAG_LENGTH = 16"

definition deriveKey :: "node_crypto \<Rightarrow> jstring \<Rightarrow> buffer" where
  "deriveKey lib tok = sha256 lib (utf8_encode tok)"

text \<open>
  \<open>buf.subarray(start, end)\<close>: a negative index counts from the end, and both are clamped
  to the buffer.
\<close>

definition relative_index :: "nat \<Rightarrow> int \<Rightarrow> nat" where
  "relative_index len i = (if i < 0 then nat (max (int len + i) 0) else min (nat i) len)"

definition subarray :: "'a list \<Rightarrow> int \<Rightarrow> int \<Rightarrow> 'a list" where
  "subarray xs start end =
     (let a = relative_index (length xs) start; b = relative_index (length xs) end
      in take (b - a) (drop a xs))"

text \<open>\<open>encryptMessage\<close>; \<open>iv\<close> is what \<open>crypto.randomBytes(IV_LENGTH)\<close> returned.\<close>

definition encryptMessage :: "node_crypto \<Rightarrow> buffer \<Rightarrow> jstring \<Rightarrow> jstring \<Rightarrow> string" where
  "encryptMessage lib iv plaintext tok =
     (let key = deriveKey lib tok;
          (encrypted, tag) = gcm_encrypt lib key iv (utf8_encode plaintext);
          packed = iv @ encrypted @ tag
      in base64_encode packed)"

text \<open>\<open>decryptMessage\<close>; the \<open>catch\<close> turns whatever is thrown into \<open>null\<close>, here \<open>None\<close>.\<close>

definition decryptMessage :: "node_crypto \<Rightarrow> string \<Rightarrow> jstring \<Rightarrow> jstring option" where
  "decryptMessage lib encryptedBase64 tok =
     (let key = deriveKey lib tok;
          packed = base64_decode encryptedBase64;
          iv = subarray packed 0 (int IV_LENGTH);
          tag = subarray packed (int (length packed) - int TAG_LENGTH) (int (length packed));
          encrypted = subarray packed (int IV_LENGTH) (int (length packed) - int TAG_LENGTH)
      in (case gcm_decrypt lib key iv tag encrypted of
            None \<Rightarrow> None
          | Some decrypted \<Rightarrow> Some (utf8_decode decrypted)))"

text \<open>
  What the round trip needs of the library: digests have 32 bytes, tags 16, and under
  one 32-byte key and one 12-byte nonce decryption undoes encryption.
\<close>

definition crypto_correct :: "node_crypto \<Rightarrow> bool" where
  "crypto_correct lib =
     (\<forall>b key iv p.
        length (sha256 lib b) = 32
        \<and> (length key = 32 \<and> length iv = 12 \<longrightarrow>
             length (snd (gcm_encrypt lib key iv p)) = 16
             \<and> gcm_decrypt lib key iv (snd (gcm_encrypt lib key iv p))
                  (fst (gcm_encrypt lib key iv p)) = Some p))"

section \<open>Example data\<close>

text \<open>Two friend files as \<open>/pair-request\<close> and the accept handshake leave them.\<close>

definition bob_pending :: friend where
  "bob_pending =
     \<lparr>name = ''bob'', webhook_url = ''https://bob.example'',
      token = ''0123456789abcdef0123456789abcdef'', status = ''pending'',
      paired_at = None, last_heartbeat = None, last_message_at = None,
      conversation_history = Some []\<rparr>"

definition alice_paired :: friend where
  "alice_paired =
     \<lparr>name = ''alice'', webhook_url = ''https://alice.example'',
      token = ''fedcba9876543210fedcba9876543210'', status = ''paired'',
      paired_at = Some ''2026-01-01T00:00:00.000Z'', last_heartbeat = None,
      last_message_at = None, conversation_history = Some []\<rparr>"

text \<open>
  A clock for the examples, right on the instants they use: 00:00, 00:19, 00:28, 00:29,
  00:31 and 00:50 of 1 January 2026 and midnight of 1 January 2100, in milliseconds
  since 1970, and their ISO strings.
\<close>

definition example_instants :: "(string \<times> int) list" where
  "example_instants =
     [(''2026-01-01T00:00:00.000Z'', 1767225600000),
      (''2026-01-01T00:19:00.000Z'', 1767226740000),
      (''2026-01-01T00:28:00.000Z'', 1767227280000),
      (''2026-01-01T00:29:00.000Z'', 1767227340000),
      (''2026-01-01T00:31:00.000Z'', 1767227460000),
      (''2026-01-01T00:50:00.000Z'', 1767228600000),
      (''2100-01-01T00:00:00.000Z'', 4102444800000)]"

definition example_getTime :: "json \<Rightarrow> jsnum" where
  "example_getTime x =
     (case x of
        JStr s \<Rightarrow> (case map_of example_instants s of Some ms \<Rightarrow> Num ms | None \<Rightarrow> NaN)
      | _ \<Rightarrow> NaN)"

definition example_toISOString :: "int \<Rightarrow> string" where
  "example_toISOString ms =
     (case map_of (map (\<lambda>(s, t). (t, s)) example_instants) ms of
        Some s \<Rightarrow> s
      | None \<Rightarrow> ''1970-01-01T00:00:00.000Z'')"

text \<open>
  Friend files by name, with a leading \<open>./\<close> resolved as \<open>path.join\<close> does; no request is
  encrypted or a file message, the shell is not reached, and every friend can be
  requested.
\<close>

fun strip_dot_slash :: "string \<Rightarrow> string" where
  "strip_dot_slash (a # b # s) =
     (if a = CHR ''.'' \<and> b = CHR ''/'' then strip_dot_slash s else a # b # s)"
| "strip_dot_slash s = s"

definition example_friendFile :: "string \<Rightarrow> string" where
  "example_friendFile nm = ''friends/'' @ strip_dot_slash nm @ ''.json''"

definition example_env :: node_env where
  "example_env =
     \<lparr>friendFile = example_friendFile,
      toISOString = example_toISOString, getTime = example_getTime,
      decrypt = (\<lambda>m tok. None), fileNote = (\<lambda>from p. p), fileWrite = (\<lambda>from p fs. fs),
      shellCommand = (\<lambda>from fs. fs), canRequest = (\<lambda>fr. True)\<rparr>"

definition example_config :: config where
  "example_config =
     \<lparr>agentName = ''me'', friendMode = ''auto'', maxExchangesPerConvo = Num 3,
      cooldownMinutes = Num 30\<rparr>"

text \<open>Alice after three exchanges, at 00:00, 00:19 and 00:28.\<close>

definition alice_history :: "message list" where
  "alice_history =
     [\<lparr>msg_from = JStr ''alice'', msg_message = JStr ''hello'',
       msg_timestamp = JStr ''2026-01-01T00:00:00.000Z'', msg_direction = ''incoming''\<rparr>,
      \<lparr>msg_from = JStr ''me'', msg_message = JStr ''hi'',
       msg_timestamp = JStr ''2026-01-01T00:19:00.000Z'', msg_direction = ''outgoing''\<rparr>,
      \<lparr>msg_from = JStr ''alice'', msg_message = JStr ''how are you?'',
       msg_timestamp = JStr ''2026-01-01T00:28:00.000Z'', msg_direction = ''incoming''\<rparr>]"

definition alice_chatting :: friend where
  "alice_chatting = alice_paired\<lparr>conversation_history := Some alice_history\<rparr>"

text \<open>An entry that a peer stamped with a date far ahead.\<close>

definition future_entry :: message where
  "future_entry =
     \<lparr>msg_from = JStr ''alice'', msg_message = JStr ''see you'',
      msg_timestamp = JStr ''2100-01-01T00:00:00.000Z'', msg_direction = ''incoming''\<rparr>"

text \<open>
  Requests to \<open>POST /message\<close>, each with a JSON content type unless said otherwise, and a
  peer whose pair request carried an eleven-character token.
\<close>

definition carol_pending :: friend where
  "carol_pending =
     \<lparr>name = ''carol'', webhook_url = ''https://carol.example'', token = ''short-token'',
      status = ''pending'', paired_at = None, last_heartbeat = None, last_message_at = None,
      conversation_history = Some []\<rparr>"

definition example_state :: server_state where
  "example_state =
     \<lparr>friends_dir = [''friends/alice.json'' \<mapsto> alice_chatting,
                     ''friends/bob.json'' \<mapsto> bob_pending,
                     ''friends/carol.json'' \<mapsto> carol_pending],
      rate_table = Map.empty\<rparr>"

definition post_message :: "string option \<Rightarrow> json option \<Rightarrow> request" where
  "post_message auth b =
     \<lparr>req_method = ''POST'', req_route = ''/message'',
      content_type = Some ''application/json'', authorization = auth, req_body = b\<rparr>"

definition hello_from :: "string \<Rightarrow> json" where
  "hello_from nm = JObj [(''from'', JStr nm), (''message'', JStr ''hello'')]"





text \<open>
  A stand-in for the library that meets \<open>crypto_correct\<close>: the digest is the input cut or
  zero-padded to 32 bytes, the cipher adds the first key byte to every byte, and the tag
  is the first 16 bytes of the key.
\<close>

definition toy_crypto :: node_crypto where
  "toy_crypto =
     \<lparr>sha256 = (\<lambda>b. take 32 (b @ replicate 32 0)),
      gcm_encrypt = (\<lambda>key iv p. (map (\<lambda>x. x + hd key) p, take 16 key)),
      gcm_decrypt = (\<lambda>key iv tag c.
         if iv \<noteq> [] \<and> tag = take 16 key then Some (map (\<lambda>x. x - hd key) c) else None)\<rparr>"


text \<open>A nonce, a secret (\<open>key\<close>) and a plaintext that is one high surrogate without its partner.\<close>

definition example_iv :: buffer where
  "example_iv = [1, 2, 3, 4, 5, 6, 7, 8, 9, 10, 11, 12]"

definition example_secret :: jstring where
  "example_secret = [0x6B, 0x65, 0x79]"

definition lone_surrogate :: jstring where
  "lone_surrogate = [0xD800]"

text \<open>A plaintext with a surrogate pair: \<open>hi\<close> followed by U+1F600.\<close>

definition example_plaintext :: jstring where
  "example_plaintext = [0x68, 0x69, 0xD83D, 0xDE00]"

chapter \<open>Properties\<close>

subsection \<open>The restart schedule\<close>

lemma min_double_cap:
  "min (min (d * 2) (60000::nat) * 2 ^ i) 60000 = min (d * 2 ^ Suc i) 60000"
proof (cases "d * 2 \<le> 60000")
  case True
  then show ?thesis by (simp add: min_def mult.assoc)
next
  case False
  then have big: "60000 < d * 2" by simp
  have one: "(1::nat) \<le> 2 ^ i" by simp
  have a: "(60000::nat) \<le> 60000 * 2 ^ i" using mult_le_mono2 [OF one, of 60000] by simp
  have "d * 2 * 1 \<le> d * 2 * 2 ^ i" by (rule mult_le_mono2 [OF one])
  moreover have "d * 2 ^ Suc i = d * 2 * 2 ^ i" by simp
  ultimately have b: "60000 \<le> d * 2 ^ Suc i" using big by linarith
  have "min (d * 2) 60000 = 60000" using big by simp
  then have "min (min (d * 2) 60000 * 2 ^ i) 60000 = 60000" using a by simp
  moreover have "min (d * 2 ^ Suc i) 60000 = 60000" using b by (simp only: min_absorb2)
  ultimately show ?thesis by simp
qed

lemma restart_delays_length: "length (restart_delays rs w) = length rs"
  by (induction rs arbitrary: w) (auto split: prod.splits)

lemma restart_delays_nth:
  "\<lbrakk>\<forall>r \<in> set rs. r \<le> RESET_AFTER_MS; i < length rs\<rbrakk>
   \<Longrightarrow> restart_delays rs w ! i = (if i = 0 then restartDelay w
                                   else min (restartDelay w * 2 ^ i) 60000)"
proof (induction rs arbitrary: w i)
  case Nil
  then show ?case by simp
next
  case (Cons runtime rs)
  show ?case
  proof (cases i)
    case 0
    with Cons.prems show ?thesis by (simp add: on_exit_def Let_def)
  next
    case (Suc j)
    with Cons.prems have j: "j < length rs" and all: "\<forall>r \<in> set rs. r \<le> RESET_AFTER_MS"
      and short: "\<not> runtime > RESET_AFTER_MS" by auto
    obtain d w' where ex: "on_exit runtime w = (d, w')" by (cases "on_exit runtime w")
    with short have w': "restartDelay w' = min (restartDelay w * 2) 60000"
      by (auto simp: on_exit_def Let_def MAX_RESTART_DELAY_def)
    have "restart_delays (runtime # rs) w ! i = restart_delays rs w' ! j"
      using ex Suc by simp
    also have "\<dots> = (if j = 0 then restartDelay w' else min (restartDelay w' * 2 ^ j) 60000)"
      by (rule Cons.IH [OF all j])
    also have "\<dots> = min (restartDelay w * 2 ^ Suc j) 60000"
      using min_double_cap [of "restartDelay w" j] by (simp add: w')
    finally show ?thesis using Suc by simp
  qed
qed

lemma on_exit_short:
  "runtime \<le> RESET_AFTER_MS \<Longrightarrow>
   on_exit runtime \<lparr>restartDelay = d, restartCount = c\<rparr>
     = (d, \<lparr>restartDelay = min (d * 2) MAX_RESTART_DELAY, restartCount = c + 1\<rparr>)"
  by (simp add: on_exit_def Let_def)

text \<open>
  C9. A child that never runs longer than the reset threshold gets the delays
  1s, 2s, 4s, 8s, ... capped at 60s (the i-th restart waits \<open>min (1000 * 2 ^ i) 60000\<close> ms),
  and whatever the backoff has grown to, an exit after more than 5 minutes of running is
  followed by the 1-second delay, after which doubling starts again from 2 seconds.
\<close>

theorem C9_backoff_schedule:
  "((\<forall>r \<in> set rs. r \<le> RESET_AFTER_MS) \<longrightarrow> i < length rs \<longrightarrow>
      restart_delays rs watchdog_init ! i = min (1000 * 2 ^ i) 60000)
   \<and> (runtime > RESET_AFTER_MS \<longrightarrow>
      fst (on_exit runtime w) = 1000 \<and> restartDelay (snd (on_exit runtime w)) = 2000)"
proof
  show "(\<forall>r \<in> set rs. r \<le> RESET_AFTER_MS) \<longrightarrow> i < length rs \<longrightarrow>
     restart_delays rs watchdog_init ! i = min (1000 * 2 ^ i) 60000"
  proof (intro impI)
    assume a: "\<forall>r \<in> set rs. r \<le> RESET_AFTER_MS" and b: "i < length rs"
    have d: "restartDelay watchdog_init = 1000"
      by (simp add: watchdog_init_def MIN_RESTART_DELAY_def)
    show "restart_delays rs watchdog_init ! i = min (1000 * 2 ^ i) 60000"
      unfolding restart_delays_nth [OF a b] d by (cases "i = 0") simp_all
  qed
  show "runtime > RESET_AFTER_MS \<longrightarrow>
     fst (on_exit runtime w) = 1000 \<and> restartDelay (snd (on_exit runtime w)) = 2000"
    by (simp add: on_exit_def Let_def MIN_RESTART_DELAY_def MAX_RESTART_DELAY_def)
qed


theorem C9_backoff_schedule_witness:
  "restart_delays [0, 0, 0, 0, 0, 0, 0, 0] watchdog_init
     = [1000, 2000, 4000, 8000, 16000, 32000, 60000, 60000]
   \<and> restart_delays [0, 0, 0, 0, 0, 0, 0, 0] watchdog_init ! 6 = min (1000 * 2 ^ 6) 60000
   \<and> fst (on_exit 360000 \<lparr>restartDelay = 60000, restartCount = 9\<rparr>) = 1000"
proof -
  have z: "0 \<le> RESET_AFTER_MS" by (simp add: RESET_AFTER_MS_def)
  have run: "restart_delays [0, 0, 0, 0, 0, 0, 0, 0] watchdog_init
     = [1000, 2000, 4000, 8000, 16000, 32000, 60000, 60000]"
    by (simp add: on_exit_short [OF z] MIN_RESTART_DELAY_def
      MAX_RESTART_DELAY_def watchdog_init_def)
  have short: "\<forall>r \<in> set [0, 0, 0, 0, 0, 0, 0, 0]. r \<le> RESET_AFTER_MS"
    by (simp add: RESET_AFTER_MS_def)
  have long: "360000 > RESET_AFTER_MS" by (simp add: RESET_AFTER_MS_def)
  have "restart_delays [0, 0, 0, 0, 0, 0, 0, 0] watchdog_init ! 6 = min (1000 * 2 ^ 6) 60000"
    and "fst (on_exit 360000 \<lparr>restartDelay = 60000, restartCount = 9\<rparr>) = 1000"
    using C9_backoff_schedule [of "[0, 0, 0, 0, 0, 0, 0, 0]" 6 360000
      "\<lparr>restartDelay = 60000, restartCount = 9\<rparr>"] short long by simp_all
  with run show ?thesis by (simp only: simp_thms)
qed

subsection \<open>Removing a friend\<close>

text \<open>
  C4 as stated fails: \<open>remove\<close> on a peer whose status is pending succeeds and deletes
  the record.
\<close>

theorem C4_remove_pending_counterexample:
  "status bob_pending = ''pending''
   \<and> fst (remove_friend_main example_friendFile (Some ''bob'')
          [''friends/bob.json'' \<mapsto> bob_pending]) = Exit_ok
   \<and> loadFriend example_friendFile ''bob''
         (snd (remove_friend_main example_friendFile (Some ''bob'')
                 [''friends/bob.json'' \<mapsto> bob_pending])) = None"
  by (simp add: remove_friend_main_def loadFriend_def deleteFriend_def bob_pending_def
      example_friendFile_def)

text \<open>
  C4, amended. \<open>remove\<close> succeeds exactly when a non-empty name is given and the file that
  the name denotes exists, whatever the status of the record in it (paired or pending);
  it then deletes that file and no other, and a failing \<open>remove\<close> leaves every file in
  place. This holds however \<open>path.join\<close> resolves names to files.
\<close>

theorem C4_remove_any_status:
  "(fst (remove_friend_main file_of arg fs) = Exit_ok
      \<longleftrightarrow> (\<exists>nm. arg = Some nm \<and> nm \<noteq> [] \<and> file_of nm \<in> dom fs))
   \<and> (fst (remove_friend_main file_of arg fs) = Exit_ok
      \<longrightarrow> snd (remove_friend_main file_of arg fs) = fs |` (- {file_of (the arg)}))
   \<and> (fst (remove_friend_main file_of arg fs) = Exit_1
      \<longrightarrow> snd (remove_friend_main file_of arg fs) = fs)"
  by (auto simp: remove_friend_main_def loadFriend_def deleteFriend_def
      restrict_complement_singleton_eq split: option.splits)

theorem C4_remove_any_status_witness:
  "fst (remove_friend_main example_friendFile (Some ''./bob'')
         [''friends/alice.json'' \<mapsto> alice_paired, ''friends/bob.json'' \<mapsto> bob_pending]) = Exit_ok
   \<and> snd (remove_friend_main example_friendFile (Some ''./bob'')
         [''friends/alice.json'' \<mapsto> alice_paired, ''friends/bob.json'' \<mapsto> bob_pending])
       = [''friends/alice.json'' \<mapsto> alice_paired, ''friends/bob.json'' \<mapsto> bob_pending]
           |` (- {''friends/bob.json''})
   \<and> fst (remove_friend_main example_friendFile (Some ''carol'')
         [''friends/alice.json'' \<mapsto> alice_paired]) = Exit_1
   \<and> snd (remove_friend_main example_friendFile (Some ''carol'')
         [''friends/alice.json'' \<mapsto> alice_paired]) = [''friends/alice.json'' \<mapsto> alice_paired]"
  using C4_remove_any_status [of example_friendFile "Some ''./bob''"
      "[''friends/alice.json'' \<mapsto> alice_paired, ''friends/bob.json'' \<mapsto> bob_pending]"]
    C4_remove_any_status [of example_friendFile "Some ''carol''"
      "[''friends/alice.json'' \<mapsto> alice_paired]"]
  by (simp add: remove_friend_main_def loadFriend_def example_friendFile_def)

subsection \<open>The message rate limit\<close>

lemma checkRateLimit_fresh:
  "\<lbrakk>rl nm = None; nm \<notin> set object_prototype_keys\<rbrakk> \<Longrightarrow>
   checkRateLimit now nm rl =
     (\<lparr>allowed = True, remaining = Num 9\<rparr>, rl(nm \<mapsto> \<lparr>count = 1, windowStart = now\<rparr>))"
  by (simp add: checkRateLimit_def RATE_LIMIT_MAX_def)

lemma checkRateLimit_expired:
  "\<lbrakk>rl nm = Some e; now - windowStart e > 60000\<rbrakk> \<Longrightarrow>
   checkRateLimit now nm rl =
     (\<lparr>allowed = True, remaining = Num 9\<rparr>, rl(nm \<mapsto> \<lparr>count = 1, windowStart = now\<rparr>))"
  by (simp add: checkRateLimit_def RATE_LIMIT_MAX_def RATE_LIMIT_WINDOW_MS_def)

lemma checkRateLimit_active:
  "\<lbrakk>rl nm = Some \<lparr>count = c, windowStart = t0\<rparr>; now - t0 \<le> 60000\<rbrakk> \<Longrightarrow>
   checkRateLimit now nm rl =
     (if c \<ge> 10 then (\<lparr>allowed = False, remaining = Num 0\<rparr>, rl)
      else (\<lparr>allowed = True, remaining = Num (9 - int c)\<rparr>,
            rl(nm \<mapsto> \<lparr>count = c + 1, windowStart = t0\<rparr>)))"
  by (simp add: checkRateLimit_def RATE_LIMIT_MAX_def RATE_LIMIT_WINDOW_MS_def)

lemma rate_calls_length: "length (fst (rate_calls ts nm rl)) = length ts"
  by (induction ts arbitrary: rl) (simp_all add: case_prod_beta)

lemma rate_calls_active:
  "\<lbrakk>rl nm = Some \<lparr>count = c, windowStart = t0\<rparr>; \<forall>t \<in> set ts. t - t0 \<le> 60000;
    i < length ts\<rbrakk> \<Longrightarrow>
   fst (rate_calls ts nm rl) ! i =
     (if c + i < 10 then \<lparr>allowed = True, remaining = Num (9 - int (c + i))\<rparr>
      else \<lparr>allowed = False, remaining = Num 0\<rparr>)"
proof (induction ts arbitrary: rl c i)
  case Nil
  then show ?case by simp
next
  case (Cons now ts)
  from Cons.prems have inw: "now - t0 \<le> 60000" and rest: "\<forall>t \<in> set ts. t - t0 \<le> 60000"
    by auto
  note step = checkRateLimit_active [of rl nm c t0 now, OF Cons.prems(1) inw]
  show ?case
  proof (cases i)
    case 0
    then show ?thesis using step by (auto split: prod.splits)
  next
    case (Suc j)
    with Cons.prems have j: "j < length ts" by simp
    show ?thesis
    proof (cases "c \<ge> 10")
      case True
      then have "fst (rate_calls (now # ts) nm rl) ! i = fst (rate_calls ts nm rl) ! j"
        using step Suc by (simp split: prod.splits)
      also have "\<dots> = (if c + j < 10 then \<lparr>allowed = True, remaining = Num (9 - int (c + j))\<rparr>
          else \<lparr>allowed = False, remaining = Num 0\<rparr>)"
        by (rule Cons.IH [of rl c j, OF Cons.prems(1) rest j])
      finally show ?thesis using True Suc by simp
    next
      case False
      let ?rl = "rl(nm \<mapsto> \<lparr>count = c + 1, windowStart = t0\<rparr>)"
      have st: "?rl nm = Some \<lparr>count = c + 1, windowStart = t0\<rparr>" by simp
      from False have "fst (rate_calls (now # ts) nm rl) ! i = fst (rate_calls ts nm ?rl) ! j"
        using step Suc by (simp split: prod.splits)
      also have "\<dots> = (if c + 1 + j < 10
          then \<lparr>allowed = True, remaining = Num (9 - int (c + 1 + j))\<rparr>
          else \<lparr>allowed = False, remaining = Num 0\<rparr>)"
        by (rule Cons.IH [of ?rl "c + 1" j, OF st rest j])
      finally show ?thesis using Suc by simp
    qed
  qed
qed

text \<open>
  The limiter on a subject whose name is not one every object inherits: the first call
  creates the counter and reports 9 left; of the calls that follow inside the window the
  next nine are accepted, each reporting one less, and from the 11th call on they are
  rejected with 0 left; a call after the window has elapsed is accepted and restarts the
  counter at 1 with the window starting at that call.
\<close>

theorem rate_limit_ordinary_subject:
  "nm \<notin> set object_prototype_keys \<longrightarrow> rl nm = None \<longrightarrow>
     (\<forall>t \<in> set ts. t - t0 \<le> 60000) \<longrightarrow> i < Suc (length ts) \<longrightarrow>
     snd (checkRateLimit t0 nm rl) nm = Some \<lparr>count = 1, windowStart = t0\<rparr>
     \<and> fst (rate_calls (t0 # ts) nm rl) ! i =
         (if i < 10 then \<lparr>allowed = True, remaining = Num (9 - int i)\<rparr>
          else \<lparr>allowed = False, remaining = Num 0\<rparr>)
     \<and> (\<forall>e now. rl' nm = Some e \<longrightarrow> now - windowStart e > 60000 \<longrightarrow>
           fst (checkRateLimit now nm rl') = \<lparr>allowed = True, remaining = Num 9\<rparr>
           \<and> snd (checkRateLimit now nm rl') nm = Some \<lparr>count = 1, windowStart = now\<rparr>)"
proof (intro impI conjI allI)
  assume np: "nm \<notin> set object_prototype_keys" and none: "rl nm = None"
    and inw: "\<forall>t \<in> set ts. t - t0 \<le> 60000" and i: "i < Suc (length ts)"
  note first = checkRateLimit_fresh [of rl nm t0, OF none np]
  show "snd (checkRateLimit t0 nm rl) nm = Some \<lparr>count = 1, windowStart = t0\<rparr>"
    by (simp add: first)
  let ?rl = "rl(nm \<mapsto> \<lparr>count = 1, windowStart = t0\<rparr>)"
  have st: "?rl nm = Some \<lparr>count = 1, windowStart = t0\<rparr>" by simp
  show "fst (rate_calls (t0 # ts) nm rl) ! i =
         (if i < 10 then \<lparr>allowed = True, remaining = Num (9 - int i)\<rparr>
          else \<lparr>allowed = False, remaining = Num 0\<rparr>)"
  proof (cases i)
    case 0
    then show ?thesis by (simp add: first split: prod.splits)
  next
    case (Suc j)
    with i have j: "j < length ts" by simp
    have "fst (rate_calls (t0 # ts) nm rl) ! i = fst (rate_calls ts nm ?rl) ! j"
      using Suc by (simp add: first split: prod.splits)
    also note rate_calls_active [of ?rl nm 1 t0 ts j, OF st inw j]
    finally show ?thesis using Suc by simp
  qed
next
  fix e now
  assume "rl' nm = Some e" and "now - windowStart e > 60000"
  then show "fst (checkRateLimit now nm rl') = \<lparr>allowed = True, remaining = Num 9\<rparr>"
    and "snd (checkRateLimit now nm rl') nm = Some \<lparr>count = 1, windowStart = now\<rparr>"
    by (simp_all add: checkRateLimit_expired)
qed

theorem rate_limit_ordinary_subject_witness:
  "fst (rate_calls [0, 1, 2, 3, 4, 5, 6, 7, 8, 9, 10] ''bob'' Map.empty) ! 9
     = \<lparr>allowed = True, remaining = Num 0\<rparr>
   \<and> fst (rate_calls [0, 1, 2, 3, 4, 5, 6, 7, 8, 9, 10] ''bob'' Map.empty) ! 10
     = \<lparr>allowed = False, remaining = Num 0\<rparr>
   \<and> fst (checkRateLimit 60001 ''bob'' [''bob'' \<mapsto> \<lparr>count = 10, windowStart = 0\<rparr>])
     = \<lparr>allowed = True, remaining = Num 9\<rparr>"
proof -
  have np: "''bob'' \<notin> set object_prototype_keys" by (simp add: object_prototype_keys_def)
  note inst = rate_limit_ordinary_subject [of "''bob''" Map.empty "[1, 2, 3, 4, 5, 6, 7, 8, 9, 10]" 0 _
      "[''bob'' \<mapsto> \<lparr>count = 10, windowStart = 0\<rparr>]"]
  show ?thesis using inst [of 9] inst [of 10] np by (simp del: rate_calls.simps)
qed

text \<open>
  C5 on the code: for a subject named like a property every object inherits (a paired
  peer may be called \<open>constructor\<close>: \<open>isValidName\<close> accepts it) the read
  \<open>rateLimits[friendName]\<close> never yields \<open>undefined\<close>, no counter is ever created, and the
  11th call inside one window is accepted like every other one.
\<close>

theorem C5_inherited_name_never_limited:
  "map allowed (fst (rate_calls [0, 1, 2, 3, 4, 5, 6, 7, 8, 9, 10] ''constructor'' Map.empty))
     = [True, True, True, True, True, True, True, True, True, True, True]
   \<and> map remaining (fst (rate_calls [0, 1, 2, 3, 4, 5, 6, 7, 8, 9, 10] ''constructor'' Map.empty))
     = [NaN, NaN, NaN, NaN, NaN, NaN, NaN, NaN, NaN, NaN, NaN]
   \<and> snd (rate_calls [0, 1, 2, 3, 4, 5, 6, 7, 8, 9, 10] ''constructor'' Map.empty) = Map.empty"
proof -
  have step: "checkRateLimit now ''constructor'' Map.empty
      = (\<lparr>allowed = True, remaining = NaN\<rparr>, Map.empty)" for now
    by (simp add: checkRateLimit_def object_prototype_keys_def)
  show ?thesis by (simp add: step)
qed

subsection \<open>Cooldown\<close>

text \<open>
  The count as the code computes it: a missing file or a missing field counts nothing,
  a timestamp that cannot be converted makes the evaluation throw, and an entry counts
  when its time is a number above the cutoff.
\<close>

lemma getRecentExchangeCount_filter:
  "getRecentExchangeCount env now nm (Num w) fs =
     (case fs (friendFile env nm) of
        None \<Rightarrow> Inr 0
      | Some fr \<Rightarrow>
          (case conversation_history fr of
             None \<Rightarrow> Inr 0
           | Some h \<Rightarrow>
               if list_ex (\<lambda>m. tostr (msg_timestamp m) = None) h then Inl TypeError
               else Inr (length (filter (\<lambda>m. \<exists>t. getTime env (msg_timestamp m) = Num t
                                               \<and> now - w * 60000 < t) h))))"
proof -
  have gt: "js_greater x (js_minus (Num now) (js_times (js_times (Num w) (Num 60)) (Num 1000)))
      = (\<exists>t. x = Num t \<and> now - w * 60000 < t)" for x
    by (cases x) auto
  show ?thesis
    unfolding getRecentExchangeCount_def loadFriend_def Let_def gt ..
qed

lemma list_ex_not_all: "list_ex (\<lambda>m. P m = None) h \<longleftrightarrow> \<not> list_all (\<lambda>m. P m \<noteq> None) h"
  by (induction h) auto

text \<open>
  C7 as stated fails. The count has no upper end: three entries that a peer stamped with
  the year 2100 are counted at 00:29 of 1 January 2026, and the cooldown holds, though
  none of them lies in the 30 minutes before. And \<open>handleMessage\<close> evaluates the cooldown
  on the history that already holds the message it has just stored: at 00:31, when two
  of the entries of 00:00, 00:19 and 00:28 remain in the window, the check on the stored
  history gives 2 and \<open>false\<close>, but the next inbound message finds the cooldown in force
  and triggers no automatic reply.
\<close>

theorem C7_cooldown_counterexample:
  "getTime example_env (msg_timestamp future_entry) = Num 4102444800000
   \<and> cooldown_check example_env example_config 1767227340000 ''alice''
        [''friends/alice.json'' \<mapsto>
           alice_paired\<lparr>conversation_history := Some [future_entry, future_entry, future_entry]\<rparr>]
       = Inr (3, True)
   \<and> cooldown_check example_env example_config 1767227460000 ''alice'' (friends_dir example_state)
       = Inr (2, False)
   \<and> friendMode example_config = ''auto''
   \<and> fst (handleMessage example_env example_config 1767227460000
        (post_message (Some (''Bearer '' @ token alice_paired)) (Some (hello_from ''alice'')))
        example_state)
       = Inr (\<lparr>statusCode = 200, body = DeliveredBody (Num 9)\<rparr>, False)"
  by (simp add: handleMessage_def authenticateFriend_def post_message_def hello_from_def
     example_state_def loadFriend_def saveFriend_def example_env_def example_friendFile_def
     alice_chatting_def alice_paired_def verifyBearerToken_def Let_def checkRateLimit_def
     object_prototype_keys_def RATE_LIMIT_MAX_def cooldown_check_def getRecentExchangeCount_def
     alice_history_def example_getTime_def example_toISOString_def example_instants_def
     example_config_def context_line_def slice_last_def isValidName_def name_characters_def
     future_entry_def)

text \<open>
  C7, amended. For a peer with a stored history \<open>h\<close> and numbers \<open>cooldownMinutes\<close> and
  \<open>maxExchanges\<close>, the evaluation throws when some stored timestamp cannot be converted
  to a date value; otherwise \<open>recentCount\<close> is the number of entries, of either direction,
  whose timestamp is a date later than \<open>cooldownMinutes\<close> before the time of the check
  (so an entry stamped in the future counts, and one that is no date does not), and
  \<open>overCooldown\<close> holds exactly when \<open>recentCount >= maxExchanges\<close>. The history is the
  stored one at the time of the check, which in \<open>handleMessage\<close> already holds the
  message being handled. With \<open>maxExchanges = 3\<close> and \<open>cooldownMinutes = 30\<close>, the stored
  entries of 00:00, 00:19 and 00:28 give 3 and \<open>true\<close> at 00:29 and 2 and \<open>false\<close> at 00:31;
  an inbound message handled at 00:50, when one of them remains in the window, is
  counted with it, finds no cooldown and triggers the automatic reply.
\<close>

theorem C7_cooldown:
  "(fs (friendFile env nm) = Some fr \<and> conversation_history fr = Some h
      \<and> cooldownMinutes cfg = Num w \<and> maxExchangesPerConvo cfg = Num mx
    \<longrightarrow> cooldown_check env cfg now nm fs
          = (if list_all (\<lambda>m. tostr (msg_timestamp m) \<noteq> None) h
             then Inr (card {i. i < length h \<and> (\<exists>t. getTime env (msg_timestamp (h ! i)) = Num t
                                                  \<and> now - w * 60000 < t)},
                       mx \<le> int (card {i. i < length h
                                         \<and> (\<exists>t. getTime env (msg_timestamp (h ! i)) = Num t
                                                \<and> now - w * 60000 < t)}))
             else Inl TypeError)
        \<and> cooldown_check env cfg now nm
            (fs(friendFile env nm \<mapsto>
                  fr\<lparr>conversation_history := Some (map (\<lambda>m. m\<lparr>msg_direction := d\<rparr>) h)\<rparr>))
          = cooldown_check env cfg now nm fs)
   \<and> cooldown_check example_env example_config 1767227340000 ''alice'' (friends_dir example_state)
       = Inr (3, True)
   \<and> cooldown_check example_env example_config 1767227460000 ''alice'' (friends_dir example_state)
       = Inr (2, False)
   \<and> fst (handleMessage example_env example_config 1767228600000
        (post_message (Some (''Bearer '' @ token alice_paired)) (Some (hello_from ''alice'')))
        example_state)
       = Inr (\<lparr>statusCode = 200, body = DeliveredBody (Num 9)\<rparr>, True)"
proof (intro conjI impI)
  assume a: "fs (friendFile env nm) = Some fr \<and> conversation_history fr = Some h
      \<and> cooldownMinutes cfg = Num w \<and> maxExchangesPerConvo cfg = Num mx"
  let ?P = "\<lambda>m. \<exists>t. getTime env (msg_timestamp m) = Num t \<and> now - w * 60000 < t"
  have card: "length (filter ?P h)
      = card {i. i < length h \<and> (\<exists>t. getTime env (msg_timestamp (h ! i)) = Num t
                                   \<and> now - w * 60000 < t)}"
    by (rule length_filter_conv_card)
  show "cooldown_check env cfg now nm fs
          = (if list_all (\<lambda>m. tostr (msg_timestamp m) \<noteq> None) h
             then Inr (card {i. i < length h \<and> (\<exists>t. getTime env (msg_timestamp (h ! i)) = Num t
                                                  \<and> now - w * 60000 < t)},
                       mx \<le> int (card {i. i < length h
                                         \<and> (\<exists>t. getTime env (msg_timestamp (h ! i)) = Num t
                                                \<and> now - w * 60000 < t)}))
             else Inl TypeError)"
    using a unfolding card [symmetric]
    by (simp add: cooldown_check_def getRecentExchangeCount_filter list_ex_not_all)
  have same: "filter ?P (map (\<lambda>m. m\<lparr>msg_direction := d\<rparr>) h)
      = map (\<lambda>m. m\<lparr>msg_direction := d\<rparr>) (filter ?P h)"
    by (induction h) auto
  have ex: "list_ex (\<lambda>m. tostr (msg_timestamp m) = None) (map (\<lambda>m. m\<lparr>msg_direction := d\<rparr>) h)
      = list_ex (\<lambda>m. tostr (msg_timestamp m) = None) h"
    by (induction h) auto
  show "cooldown_check env cfg now nm
            (fs(friendFile env nm \<mapsto>
                  fr\<lparr>conversation_history := Some (map (\<lambda>m. m\<lparr>msg_direction := d\<rparr>) h)\<rparr>))
          = cooldown_check env cfg now nm fs"
    using a by (simp add: cooldown_check_def getRecentExchangeCount_filter same ex)
next
  show "cooldown_check example_env example_config 1767227340000 ''alice'' (friends_dir example_state)
       = Inr (3, True)"
    by (simp add: cooldown_check_def getRecentExchangeCount_def loadFriend_def Let_def
        example_env_def example_config_def alice_chatting_def alice_history_def example_getTime_def
        example_state_def example_friendFile_def example_instants_def)
  show "cooldown_check example_env example_config 1767227460000 ''alice'' (friends_dir example_state)
       = Inr (2, False)"
    by (simp add: cooldown_check_def getRecentExchangeCount_def loadFriend_def Let_def
        example_env_def example_config_def alice_chatting_def alice_history_def example_getTime_def
        example_state_def example_friendFile_def example_instants_def)
  show "fst (handleMessage example_env example_config 1767228600000
        (post_message (Some (''Bearer '' @ token alice_paired)) (Some (hello_from ''alice'')))
        example_state)
       = Inr (\<lparr>statusCode = 200, body = DeliveredBody (Num 9)\<rparr>, True)"
    by (simp add: handleMessage_def authenticateFriend_def post_message_def hello_from_def
      example_state_def loadFriend_def saveFriend_def example_env_def example_friendFile_def
      alice_chatting_def alice_paired_def verifyBearerToken_def Let_def checkRateLimit_def
      object_prototype_keys_def RATE_LIMIT_MAX_def cooldown_check_def getRecentExchangeCount_def
      alice_history_def example_getTime_def example_toISOString_def example_instants_def
      example_config_def context_line_def slice_last_def isValidName_def name_characters_def)
qed

theorem C7_cooldown_witness:
  "(friends_dir example_state (friendFile example_env ''alice'') = Some alice_chatting
      \<and> conversation_history alice_chatting = Some alice_history
      \<and> cooldownMinutes example_config = Num 30 \<and> maxExchangesPerConvo example_config = Num 3)
   \<and> list_all (\<lambda>m. tostr (msg_timestamp m) \<noteq> None) alice_history
   \<and> cooldown_check example_env example_config 1767227340000 ''alice'' (friends_dir example_state)
       = Inr (3, True)
   \<and> card {i. i < length alice_history
             \<and> (\<exists>t. getTime example_env (msg_timestamp (alice_history ! i)) = Num t
                    \<and> 1767227340000 - 30 * 60000 < t)} = 3"
proof -
  have A: "friends_dir example_state (friendFile example_env ''alice'') = Some alice_chatting
      \<and> conversation_history alice_chatting = Some alice_history
      \<and> cooldownMinutes example_config = Num 30 \<and> maxExchangesPerConvo example_config = Num 3"
    by (simp add: alice_chatting_def example_config_def example_state_def example_env_def
        example_friendFile_def)
  have B: "list_all (\<lambda>m. tostr (msg_timestamp m) \<noteq> None) alice_history"
    by (simp add: alice_history_def)
  note inst = C7_cooldown [of "friends_dir example_state" example_env "''alice''" alice_chatting
      alice_history example_config 30 3 1767227340000 "''incoming''"]
  from inst have run: "cooldown_check example_env example_config 1767227340000 ''alice''
        (friends_dir example_state) = Inr (3, True)" by blast
  from inst A B have "cooldown_check example_env example_config 1767227340000 ''alice''
        (friends_dir example_state)
      = Inr (card {i. i < length alice_history
             \<and> (\<exists>t. getTime example_env (msg_timestamp (alice_history ! i)) = Num t
                    \<and> 1767227340000 - 30 * 60000 < t)},
             3 \<le> int (card {i. i < length alice_history
             \<and> (\<exists>t. getTime example_env (msg_timestamp (alice_history ! i)) = Num t
                    \<and> 1767227340000 - 30 * 60000 < t)}))" by simp
  with run have "card {i. i < length alice_history
             \<and> (\<exists>t. getTime example_env (msg_timestamp (alice_history ! i)) = Num t
                    \<and> 1767227340000 - 30 * 60000 < t)} = 3" by simp
  with A B run show ?thesis by simp
qed

subsection \<open>Authentication and the message handler\<close>

lemma slice_last_length: "length (slice_last n xs) = min n (length xs)"
  by (simp add: slice_last_def)

lemma keep_last_100:
  "(if length xs > 100 then slice_last 100 xs else xs) = slice_last 100 xs"
  by (simp add: slice_last_def)

lemma split_on_no_sep: "c \<notin> set s \<Longrightarrow> split_on c s = [s]"
  by (induction s) auto

lemma split_on_append_sep:
  "c \<notin> set p \<Longrightarrow> split_on c (p @ c # s) = p # split_on c s"
  by (induction p) auto

lemma split_on_bearer:
  "CHR '' '' \<notin> set tok \<Longrightarrow> split_on CHR '' '' (''Bearer '' @ tok) = [''Bearer'', tok]"
  using split_on_append_sep [of "CHR '' ''" "''Bearer''" tok] split_on_no_sep [of "CHR '' ''" tok]
  by simp

lemma verifyBearerToken_missing:
  "h = None \<or> h = Some [] \<Longrightarrow>
   verifyBearerToken h expected = \<lparr>valid = False, error = Some ''Missing Authorization header''\<rparr>"
  by (auto simp: verifyBearerToken_def)

lemma verifyBearerToken_correct:
  "\<lbrakk>length tok \<ge> 20; CHR '' '' \<notin> set tok\<rbrakk> \<Longrightarrow>
   verifyBearerToken (Some (''Bearer '' @ tok)) tok = \<lparr>valid = True, error = None\<rparr>"
proof -
  assume len: "length tok \<ge> 20" and nosp: "CHR '' '' \<notin> set tok"
  have ne: "''Bearer '' @ tok \<noteq> []" by simp
  have tk: "tok \<noteq> []" using len by auto
  show ?thesis
    unfolding verifyBearerToken_def option.case Let_def split_on_bearer [OF nosp]
    using len tk ne by (simp only: if_False) simp
qed

text \<open>Without the header, authentication fails or throws, whoever the sender is.\<close>

lemma authenticateFriend_no_header:
  assumes "authorization req = None \<or> authorization req = Some []" and "bdy \<noteq> JNull"
  shows "if truthy (get_prop bdy ''from'') \<and> tostr (the (get_prop bdy ''from'')) = None
         then authenticateFriend env req bdy fs = Inl TypeError
         else (\<exists>err. authenticateFriend env req bdy fs = Inr (Inl err))"
  using assms
  by (auto simp: authenticateFriend_def Let_def verifyBearerToken_missing split: option.splits)


lemma authenticateFriend_ok:
  "\<lbrakk>bdy \<noteq> JNull; get_prop bdy ''from'' = Some frm; truthy (Some frm); tostr frm = Some nm;
    fs (friendFile env nm) = Some fr;
    status fr = ''paired'' \<or> status fr = ''pending'';
    valid (verifyBearerToken (authorization req) (token fr))\<rbrakk> \<Longrightarrow>
   authenticateFriend env req bdy fs = Inr (Inr fr)"
  by (auto simp: authenticateFriend_def Let_def loadFriend_def)

lemma handleMessage_rejected:
  "req_body req = None \<Longrightarrow> handleMessage env cfg now req st = (Inl BodyRejected, st)"
  by (simp add: handleMessage_def)

lemma handleMessage_exception:
  "\<lbrakk>req_body req = Some bdy; authenticateFriend env req bdy (friends_dir st) = Inl ex\<rbrakk> \<Longrightarrow>
   handleMessage env cfg now req st = (Inl ex, st)"
  by (simp add: handleMessage_def)

lemma handleMessage_unauthenticated:
  "\<lbrakk>req_body req = Some bdy; authenticateFriend env req bdy (friends_dir st) = Inr (Inl err)\<rbrakk> \<Longrightarrow>
   handleMessage env cfg now req st
     = (Inr (\<lparr>statusCode = 401, body = ErrorBody err\<rparr>, False), st)"
  by (simp add: handleMessage_def)

lemma handleMessage_no_message:
  "\<lbrakk>req_body req = Some bdy; authenticateFriend env req bdy (friends_dir st) = Inr (Inr fr);
    \<not> truthy (get_prop bdy ''message'')\<rbrakk> \<Longrightarrow>
   handleMessage env cfg now req st =
     (Inr (\<lparr>statusCode = 400, body = ErrorBody ''Missing \"message\" field''\<rparr>, False), st)"
  by (simp add: handleMessage_def Let_def)

lemma serve_post_message_415:
  "\<not> str_includes (case content_type req of None \<Rightarrow> [] | Some c \<Rightarrow> c) ''application/json'' \<Longrightarrow>
   serve_post_message env cfg now req st =
     (\<lparr>statusCode = 415, body = ErrorBody ''Content-Type must be application/json''\<rparr>, st)"
  by (simp add: serve_post_message_def Let_def)

lemma serve_post_message_handled:
  "\<lbrakk>str_includes (case content_type req of None \<Rightarrow> [] | Some c \<Rightarrow> c) ''application/json'';
    handleMessage env cfg now req st = (Inr (res, ar), st')\<rbrakk> \<Longrightarrow>
   serve_post_message env cfg now req st = (res, st')"
  by (simp add: serve_post_message_def Let_def)

lemma serve_post_message_500:
  "\<lbrakk>str_includes (case content_type req of None \<Rightarrow> [] | Some c \<Rightarrow> c) ''application/json'';
    handleMessage env cfg now req st = (Inl ex, st')\<rbrakk> \<Longrightarrow>
   serve_post_message env cfg now req st =
     (\<lparr>statusCode = 500, body = ErrorBody ''Internal server error''\<rparr>, st')"
  by (simp add: serve_post_message_def Let_def)

text \<open>
  C3 as stated fails: without an \<open>Authorization\<close> header a request whose body is the JSON
  text \<open>null\<close> is answered 500, and one whose content type is not JSON is answered 415.
\<close>

theorem C3_no_header_not_401_counterexample:
  "authorization (post_message None (Some JNull)) = None
   \<and> statusCode (fst (serve_post_message example_env example_config 1767227340000
        (post_message None (Some JNull)) example_state)) = 500
   \<and> authorization ((post_message None (Some (hello_from ''alice'')))\<lparr>content_type := Some ''text/plain''\<rparr>)
       = None
   \<and> statusCode (fst (serve_post_message example_env example_config 1767227340000
        ((post_message None (Some (hello_from ''alice'')))\<lparr>content_type := Some ''text/plain''\<rparr>)
        example_state)) = 415"
  by (simp add: post_message_def serve_post_message_def handleMessage_def authenticateFriend_def)

text \<open>
  C3, amended. For every \<open>POST /message\<close> request that carries no \<open>Authorization\<close> header
  (or an empty one) the server state, and with it every peer record, is the same before
  and after, and the response body has an \<open>error\<close> field. The status is 415 when the
  content type does not contain \<open>application/json\<close>; otherwise it is 500 when the body is
  rejected, is \<open>null\<close>, or has a \<open>from\<close> that is truthy and cannot be converted to a string
  (an object with an own \<open>toString\<close> property, or an array holding one); in every other
  case it is 401.
\<close>

theorem C3_no_header_rejected:
  "authorization req = None \<or> authorization req = Some [] \<longrightarrow>
     snd (serve_post_message env cfg now req st) = st
     \<and> has_error_field (body (fst (serve_post_message env cfg now req st)))
     \<and> statusCode (fst (serve_post_message env cfg now req st)) =
         (if \<not> str_includes (case content_type req of None \<Rightarrow> [] | Some c \<Rightarrow> c) ''application/json''
          then 415
          else if req_body req = None \<or> req_body req = Some JNull
                  \<or> (truthy (get_prop (the (req_body req)) ''from'')
                      \<and> tostr (the (get_prop (the (req_body req)) ''from'')) = None)
          then 500
          else 401)"
proof
  assume nohdr: "authorization req = None \<or> authorization req = Some []"
  let ?ct = "str_includes (case content_type req of None \<Rightarrow> [] | Some c \<Rightarrow> c) ''application/json''"
  let ?bad = "truthy (get_prop (the (req_body req)) ''from'')
                      \<and> tostr (the (get_prop (the (req_body req)) ''from'')) = None"
  show "snd (serve_post_message env cfg now req st) = st
     \<and> has_error_field (body (fst (serve_post_message env cfg now req st)))
     \<and> statusCode (fst (serve_post_message env cfg now req st)) =
         (if \<not> ?ct then 415
          else if req_body req = None \<or> req_body req = Some JNull \<or> ?bad then 500
          else 401)"
  proof (cases ?ct)
    case False
    then show ?thesis by (simp add: serve_post_message_415)
  next
    case ct: True
    show ?thesis
    proof (cases "req_body req")
      case None
      then show ?thesis
        using ct by (simp add: serve_post_message_500 [OF ct handleMessage_rejected])
    next
      case (Some bdy)
      show ?thesis
      proof (cases "bdy = JNull")
        case True
        then have "authenticateFriend env req bdy (friends_dir st) = Inl TypeError"
          by (simp add: authenticateFriend_def)
        from handleMessage_exception [OF Some this]
        show ?thesis using ct Some True by (simp add: serve_post_message_500 [OF ct])
      next
        case False
        note au = authenticateFriend_no_header [OF nohdr False, of env "friends_dir st"]
        show ?thesis
        proof (cases "truthy (get_prop bdy ''from'') \<and> tostr (the (get_prop bdy ''from'')) = None")
          case True
          with au have "authenticateFriend env req bdy (friends_dir st) = Inl TypeError"
            by (simp only: if_True)
          from handleMessage_exception [OF Some this]
          show ?thesis using ct Some True by (simp add: serve_post_message_500 [OF ct])
        next
          case nb: False
          with au obtain err where "authenticateFriend env req bdy (friends_dir st) = Inr (Inl err)"
            by (simp only: if_False) blast
          from handleMessage_unauthenticated [OF Some this]
          show ?thesis using ct Some False nb by (simp add: serve_post_message_handled [OF ct])
        qed
      qed
    qed
  qed
qed

theorem C3_no_header_rejected_witness:
  "authorization (post_message None (Some (hello_from ''alice''))) = None
   \<and> snd (serve_post_message example_env example_config 1767227340000
        (post_message None (Some (hello_from ''alice''))) example_state) = example_state
   \<and> has_error_field (body (fst (serve_post_message example_env example_config 1767227340000
        (post_message None (Some (hello_from ''alice''))) example_state)))
   \<and> statusCode (fst (serve_post_message example_env example_config 1767227340000
        (post_message None (Some (hello_from ''alice''))) example_state)) = 401
   \<and> authorization (post_message None (Some (JObj [(''from'', JObj [(''toString'', JNum ''1'')])])))
       = None
   \<and> statusCode (fst (serve_post_message example_env example_config 1767227340000
        (post_message None (Some (JObj [(''from'', JObj [(''toString'', JNum ''1'')])])))
        example_state)) = 500"
proof -
  let ?r1 = "post_message None (Some (hello_from ''alice''))"
  let ?r2 = "post_message None (Some (JObj [(''from'', JObj [(''toString'', JNum ''1'')])]))"
  have a: "authorization ?r1 = None" "authorization ?r2 = None"
    by (simp_all add: post_message_def)
  have c: "str_includes (case content_type ?r1 of None \<Rightarrow> [] | Some c \<Rightarrow> c) ''application/json''"
    "str_includes (case content_type ?r2 of None \<Rightarrow> [] | Some c \<Rightarrow> c) ''application/json''"
    by (simp_all add: post_message_def)
  have b: "req_body ?r1 = Some (hello_from ''alice'')"
    "get_prop (hello_from ''alice'') ''from'' = Some (JStr ''alice'')"
    "req_body ?r2 = Some (JObj [(''from'', JObj [(''toString'', JNum ''1'')])])"
    by (simp_all add: post_message_def hello_from_def)
  from C3_no_header_rejected [of ?r1 example_env example_config 1767227340000 example_state]
    C3_no_header_rejected [of ?r2 example_env example_config 1767227340000 example_state]
    a c b
  show ?thesis by (simp add: hello_from_def)
qed

text \<open>
  C6 as stated fails: a request whose body has no \<open>message\<close> and that presents no
  \<open>Authorization\<close> header for the peer it names is answered 401, not 400.
\<close>

theorem C6_missing_field_401_counterexample:
  "get_prop (JObj [(''from'', JStr ''alice'')]) ''message'' = None
   \<and> fst (serve_post_message example_env example_config 1767227340000
        (post_message None (Some (JObj [(''from'', JStr ''alice'')]))) example_state)
       = \<lparr>statusCode = 401, body = ErrorBody ''Missing Authorization header''\<rparr>"
  by (simp add: post_message_def serve_post_message_def handleMessage_def authenticateFriend_def
      loadFriend_def example_state_def verifyBearerToken_def alice_chatting_def alice_paired_def
      example_env_def example_friendFile_def)

text \<open>
  C6, amended. The handler authenticates before it looks at \<open>message\<close>. For every
  \<open>POST /message\<close> request with a JSON content type that passes authentication (its
  \<open>from\<close> names a stored peer whose status is paired or pending and whose token the
  \<open>Authorization\<close> header carries) and whose body has no \<open>message\<close> (absent or falsy), the
  status is 400, the body has the \<open>error\<close> field \<open>Missing "message" field\<close>, and nothing is
  changed.
\<close>

theorem C6_missing_message:
  "str_includes (case content_type req of None \<Rightarrow> [] | Some c \<Rightarrow> c) ''application/json''
     \<and> req_body req = Some bdy
     \<and> authenticateFriend env req bdy (friends_dir st) = Inr (Inr fr)
     \<and> \<not> truthy (get_prop bdy ''message'')
   \<longrightarrow> serve_post_message env cfg now req st
         = (\<lparr>statusCode = 400, body = ErrorBody ''Missing \"message\" field''\<rparr>, st)"
proof (intro impI; elim conjE)
  assume ct: "str_includes (case content_type req of None \<Rightarrow> [] | Some c \<Rightarrow> c) ''application/json''"
    and b: "req_body req = Some bdy"
    and "authenticateFriend env req bdy (friends_dir st) = Inr (Inr fr)"
    and "\<not> truthy (get_prop bdy ''message'')"
  from serve_post_message_handled [OF ct handleMessage_no_message [OF b this(3,4)]]
  show "serve_post_message env cfg now req st
          = (\<lparr>statusCode = 400, body = ErrorBody ''Missing \"message\" field''\<rparr>, st)" .
qed

theorem C6_missing_message_witness:
  "authenticateFriend example_env (post_message (Some (''Bearer '' @ token alice_paired))
       (Some (JObj [(''from'', JStr ''./alice'')]))) (JObj [(''from'', JStr ''./alice'')])
       (friends_dir example_state) = Inr (Inr alice_chatting)
   \<and> \<not> truthy (get_prop (JObj [(''from'', JStr ''./alice'')]) ''message'')
   \<and> serve_post_message example_env example_config 1767227340000
        (post_message (Some (''Bearer '' @ token alice_paired))
           (Some (JObj [(''from'', JStr ''./alice'')]))) example_state
       = (\<lparr>statusCode = 400, body = ErrorBody ''Missing \"message\" field''\<rparr>, example_state)"
proof -
  let ?req = "post_message (Some (''Bearer '' @ token alice_paired))
       (Some (JObj [(''from'', JStr ''./alice'')]))"
  have tok: "token alice_chatting = token alice_paired" "length (token alice_paired) \<ge> 20"
    "CHR '' '' \<notin> set (token alice_paired)" "status alice_chatting = ''paired''"
    by (simp_all add: alice_chatting_def alice_paired_def)
  have v: "valid (verifyBearerToken (authorization ?req) (token alice_chatting))"
    using verifyBearerToken_correct [OF tok(2,3)] by (simp add: post_message_def tok(1))
  have au: "authenticateFriend example_env ?req (JObj [(''from'', JStr ''./alice'')])
       (friends_dir example_state) = Inr (Inr alice_chatting)"
    by (rule authenticateFriend_ok [where frm = "JStr ''./alice''" and nm = "''./alice''"])
      (use v tok(4) in \<open>simp_all add: example_state_def example_env_def example_friendFile_def\<close>)
  have c: "str_includes (case content_type ?req of None \<Rightarrow> [] | Some c \<Rightarrow> c) ''application/json''"
    and b: "req_body ?req = Some (JObj [(''from'', JStr ''./alice'')])"
    by (simp_all add: post_message_def)
  have m: "\<not> truthy (get_prop (JObj [(''from'', JStr ''./alice'')]) ''message'')" by simp
  from C6_missing_message [of ?req "JObj [(''from'', JStr ''./alice'')]" example_env example_state
      alice_chatting example_config 1767227340000] c b au m
  show ?thesis by blast
qed

lemma context_line_some:
  "tostr (msg_from m) \<noteq> None \<and> tostr (msg_message m) \<noteq> None \<and> tostr (msg_timestamp m) \<noteq> None
   \<Longrightarrow> context_line m \<noteq> None"
  by (auto simp: context_line_def)

lemma list_all_slice_last: "list_all P xs \<Longrightarrow> list_all P (slice_last n xs)"
  unfolding slice_last_def list_all_iff using set_drop_subset by fastforce

lemma list_ex_none:
  "list_all (\<lambda>m. f m \<noteq> None) xs \<Longrightarrow> \<not> list_ex (\<lambda>m. f m = None) xs"
  by (induction xs) auto

lemma list_all_mono: "list_all P xs \<Longrightarrow> (\<And>x. P x \<Longrightarrow> Q x) \<Longrightarrow> list_all Q xs"
  by (induction xs) auto

text \<open>The count does not throw on a history whose timestamps all convert.\<close>

lemma cooldown_check_total:
  assumes "fs (friendFile env nm) = Some fr" and "conversation_history fr = Some h"
    and "list_all (\<lambda>m. tostr (msg_timestamp m) \<noteq> None) h"
  shows "\<exists>c over. cooldown_check env cfg now nm fs = Inr (c, over)"
  using assms list_ex_none [of "\<lambda>m. tostr (msg_timestamp m)" h]
  by (simp add: cooldown_check_def getRecentExchangeCount_def loadFriend_def Let_def)

text \<open>
  \<open>handleMessage\<close> once the request is authenticated, within the rate limit and
  decrypted, and the plain message has gone to the console.
\<close>

lemma handleMessage_stored:
  assumes "req_body req = Some bdy"
    and "authenticateFriend env req bdy (friends_dir st) = Inr (Inr fr)"
    and "get_prop bdy ''from'' = Some frm" and "tostr frm = Some nm"
    and "truthy (get_prop bdy ''message'')"
    and "checkRateLimit now nm (rate_table st) = (rc, rl)"
    and "allowed rc"
    and "(if truthy (get_prop bdy ''encrypted'')
          then map_option JStr (decrypt env (the (get_prop bdy ''message'')) (token fr))
          else Some (the (get_prop bdy ''message''))) = Some p0"
    and "get_prop bdy ''message_type'' = Some (JStr ''file'') \<or> tostr p0 \<noteq> None"
    and "plaintext = (if get_prop bdy ''message_type'' = Some (JStr ''file'')
                      then fileNote env frm p0 else p0)"
    and "kept = slice_last 100
                 ((case conversation_history fr of None \<Rightarrow> [] | Some h \<Rightarrow> h)
                  @ [\<lparr>msg_from = frm, msg_message = plaintext,
                      msg_timestamp = (if truthy (get_prop bdy ''timestamp'')
                                       then the (get_prop bdy ''timestamp'')
                                       else JStr (toISOString env now)),
                      msg_direction = ''incoming''\<rparr>])"
    and "fs' = (if get_prop bdy ''message_type'' = Some (JStr ''file'')
                then fileWrite env frm p0 (friends_dir st) else friends_dir st)
               (friendFile env nm \<mapsto>
                  fr\<lparr>conversation_history := Some kept,
                     last_message_at := Some (toISOString env now)\<rparr>)"
    and "st1 = st\<lparr>friends_dir := fs', rate_table := rl\<rparr>"
  shows "handleMessage env cfg now req st =
     (if (case frm of JStr s \<Rightarrow> False | _ \<Rightarrow> True) \<or> tostr plaintext = None
      then (Inl TypeError, st1)
      else
        (case cooldown_check env cfg now nm fs' of
           Inl ex \<Rightarrow> (Inl ex, st1)
         | Inr (recentExchanges, overCooldown) \<Rightarrow>
             if list_ex (\<lambda>m. context_line m = None) (slice_last 10 kept)
             then (Inl TypeError, st1)
             else
               (Inr (\<lparr>statusCode = 200, body = DeliveredBody (remaining rc)\<rparr>,
                     friendMode cfg = ''auto'' \<and> \<not> overCooldown),
                if (friendMode cfg = ''auto'' \<and> \<not> overCooldown) \<and> \<not> isValidName nm
                then st1\<lparr>friends_dir := shellCommand env nm fs'\<rparr>
                else st1)))"
proof -
  have e1: "(get_prop bdy ''message_type'' \<noteq> Some (JStr ''file'') \<and> tostr p0 = None) = False"
    using assms(9) by auto
  have m: "(\<not> truthy (get_prop bdy ''message'')) = False" using assms(5) by simp
  have al: "(\<not> allowed rc) = False" using assms(7) by simp
  show ?thesis
    unfolding assms(10-13)
    by (simp only: handleMessage_def assms(1-4,6,8) option.case sum.case Let_def option.sel
        m al e1 if_False prod.case keep_last_100 saveFriend_def)
qed





text \<open>A request that goes through: nothing on the way throws.\<close>

lemma handleMessage_delivered:
  assumes b: "req_body req = Some bdy"
    and au: "authenticateFriend env req bdy (friends_dir st) = Inr (Inr fr)"
    and f: "get_prop bdy ''from'' = Some (JStr nm)" and v: "isValidName nm"
    and msg: "truthy (get_prop bdy ''message'')"
    and crl: "checkRateLimit now nm (rate_table st) = (rc, rl)"
    and al: "allowed rc"
    and d: "(if truthy (get_prop bdy ''encrypted'')
          then map_option JStr (decrypt env (the (get_prop bdy ''message'')) (token fr))
          else Some (the (get_prop bdy ''message''))) = Some p0"
    and pl: "plaintext = (if get_prop bdy ''message_type'' = Some (JStr ''file'')
                          then fileNote env (JStr nm) p0 else p0)"
    and conv: "tostr plaintext \<noteq> None"
    and ts: "truthy (get_prop bdy ''timestamp'') \<longrightarrow> tostr (the (get_prop bdy ''timestamp'')) \<noteq> None"
    and old: "list_all (\<lambda>m. tostr (msg_from m) \<noteq> None \<and> tostr (msg_message m) \<noteq> None
                          \<and> tostr (msg_timestamp m) \<noteq> None)
                (case conversation_history fr of None \<Rightarrow> [] | Some h \<Rightarrow> h)"
    and en: "entry = \<lparr>msg_from = JStr nm, msg_message = plaintext,
                      msg_timestamp = (if truthy (get_prop bdy ''timestamp'')
                                       then the (get_prop bdy ''timestamp'')
                                       else JStr (toISOString env now)),
                      msg_direction = ''incoming''\<rparr>"
  shows "\<exists>ar st'. handleMessage env cfg now req st =
           (Inr (\<lparr>statusCode = 200, body = DeliveredBody (remaining rc)\<rparr>, ar), st')
         \<and> friends_dir st' (friendFile env nm) =
             Some (fr\<lparr>conversation_history := Some (slice_last 100
                        ((case conversation_history fr of None \<Rightarrow> [] | Some h \<Rightarrow> h) @ [entry])),
                     last_message_at := Some (toISOString env now)\<rparr>)"
proof -
  let ?P = "\<lambda>m. tostr (msg_from m) \<noteq> None \<and> tostr (msg_message m) \<noteq> None
                          \<and> tostr (msg_timestamp m) \<noteq> None"
  let ?old = "case conversation_history fr of None \<Rightarrow> [] | Some h \<Rightarrow> h"
  let ?file = "get_prop bdy ''message_type'' = Some (JStr ''file'')"
  let ?kept = "slice_last 100 (?old @ [entry])"
  let ?fr' = "fr\<lparr>conversation_history := Some ?kept,
                 last_message_at := Some (toISOString env now)\<rparr>"
  let ?fs' = "(if ?file then fileWrite env (JStr nm) p0 (friends_dir st) else friends_dir st)
               (friendFile env nm \<mapsto> ?fr')"
  let ?st1 = "st\<lparr>friends_dir := ?fs', rate_table := rl\<rparr>"
  have t: "tostr (JStr nm) = Some nm" by simp
  have e1: "?file \<or> tostr p0 \<noteq> None" using conv pl by auto
  have pe: "?P entry" using en conv ts by simp
  have all: "list_all ?P (?old @ [entry])" using old pe by simp
  have kept: "list_all ?P ?kept" by (rule list_all_slice_last [OF all])
  have k1: "list_all (\<lambda>m. tostr (msg_timestamp m) \<noteq> None) ?kept"
    by (rule list_all_mono [OF kept]) simp
  have k2: "list_all (\<lambda>m. context_line m \<noteq> None) (slice_last 10 ?kept)"
    by (rule list_all_mono [OF list_all_slice_last [OF kept]]) (rule context_line_some)
  have c: "\<exists>c over. cooldown_check env cfg now nm ?fs' = Inr (c, over)"
    by (rule cooldown_check_total [where fr = ?fr' and h = ?kept, OF _ _ k1]) simp_all
  then obtain c over where cc: "cooldown_check env cfg now nm ?fs' = Inr (c, over)" by blast
  have nx: "\<not> list_ex (\<lambda>m. context_line m = None) (slice_last 10 ?kept)"
    by (rule list_ex_none [OF k2])
  note nf = handleMessage_stored [OF b au f t msg crl al d e1 pl refl refl refl,
      of cfg, unfolded en [symmetric]]
  have "handleMessage env cfg now req st =
      (Inr (\<lparr>statusCode = 200, body = DeliveredBody (remaining rc)\<rparr>,
            friendMode cfg = ''auto'' \<and> \<not> over), ?st1)"
    unfolding nf using conv cc nx v by simp
  moreover have "friends_dir ?st1 (friendFile env nm) = Some ?fr'" by simp
  ultimately show ?thesis by blast
qed


text \<open>
  C10 as stated fails. A pending peer whose stored token is shorter than 20 characters
  (\<open>/pair-request\<close> stores whatever token the remote sent) presents the correct bearer
  token and is refused with 401, and a pending peer with a long token whose \<open>message\<close>
  is an object with an own \<open>toString\<close> property is answered 500.
\<close>

theorem C10_pending_short_token_counterexample:
  "friends_dir example_state (friendFile example_env ''carol'') = Some carol_pending
   \<and> status carol_pending = ''pending''
   \<and> fst (serve_post_message example_env example_config 1767227340000
        (post_message (Some (''Bearer '' @ token carol_pending)) (Some (hello_from ''carol'')))
        example_state)
       = \<lparr>statusCode = 401, body = ErrorBody ''Token too short''\<rparr>
   \<and> friends_dir example_state (friendFile example_env ''bob'') = Some bob_pending
   \<and> status bob_pending = ''pending''
   \<and> statusCode (fst (serve_post_message example_env example_config 1767227340000
        (post_message (Some (''Bearer '' @ token bob_pending))
           (Some (JObj [(''from'', JStr ''bob''),
                        (''message'', JObj [(''toString'', JNum ''1'')])])))
        example_state)) = 500"
  by (simp add: post_message_def serve_post_message_def handleMessage_def authenticateFriend_def
      loadFriend_def example_state_def verifyBearerToken_def carol_pending_def hello_from_def
      example_env_def example_friendFile_def bob_pending_def Let_def checkRateLimit_def
      object_prototype_keys_def RATE_LIMIT_MAX_def)

text \<open>
  C10, amended. For every stored peer record whose status is pending and whose token
  has at least 20 characters and no space, a \<open>POST /message\<close> with a JSON content type
  whose \<open>from\<close> is the peer's name as a string, a name that passes \<open>isValidName\<close>, that
  presents \<open>Bearer\<close> and that token, carries a \<open>message\<close>, is within the peer's rate limit
  and, when marked \<open>encrypted\<close>, decrypts under the token, and in which the message text,
  the \<open>timestamp\<close> if there is one, and the entries already stored can be converted to
  strings (as every string, number and boolean can), is answered 200 with the body of a
  delivered message; afterwards the peer's record still has the status pending and its
  history is the old one with the incoming entry appended (cut to the last 100).
\<close>

theorem C10_pending_delivers:
  "friends_dir st (friendFile env nm) = Some fr \<and> status fr = ''pending''
     \<and> length (token fr) \<ge> 20 \<and> CHR '' '' \<notin> set (token fr)
     \<and> str_includes (case content_type req of None \<Rightarrow> [] | Some c \<Rightarrow> c) ''application/json''
     \<and> authorization req = Some (''Bearer '' @ token fr)
     \<and> req_body req = Some bdy
     \<and> get_prop bdy ''from'' = Some (JStr nm) \<and> isValidName nm
     \<and> truthy (get_prop bdy ''message'')
     \<and> allowed (fst (checkRateLimit now nm (rate_table st)))
     \<and> (if truthy (get_prop bdy ''encrypted'')
          then map_option JStr (decrypt env (the (get_prop bdy ''message'')) (token fr))
          else Some (the (get_prop bdy ''message''))) = Some p0
     \<and> plaintext = (if get_prop bdy ''message_type'' = Some (JStr ''file'')
                     then fileNote env (JStr nm) p0 else p0)
     \<and> tostr plaintext \<noteq> None
     \<and> (truthy (get_prop bdy ''timestamp'') \<longrightarrow> tostr (the (get_prop bdy ''timestamp'')) \<noteq> None)
     \<and> list_all (\<lambda>m. tostr (msg_from m) \<noteq> None \<and> tostr (msg_message m) \<noteq> None
                     \<and> tostr (msg_timestamp m) \<noteq> None)
          (case conversation_history fr of None \<Rightarrow> [] | Some h \<Rightarrow> h)
   \<longrightarrow> (\<exists>fr' entry.
         fst (serve_post_message env cfg now req st)
           = \<lparr>statusCode = 200,
              body = DeliveredBody (remaining (fst (checkRateLimit now nm (rate_table st))))\<rparr>
         \<and> friends_dir (snd (serve_post_message env cfg now req st)) (friendFile env nm) = Some fr'
         \<and> status fr' = ''pending''
         \<and> conversation_history fr' = Some (slice_last 100
               ((case conversation_history fr of None \<Rightarrow> [] | Some h \<Rightarrow> h) @ [entry]))
         \<and> msg_from entry = JStr nm \<and> msg_direction entry = ''incoming''
         \<and> msg_message entry = plaintext)"
proof (intro impI; elim conjE)
  let ?old = "case conversation_history fr of None \<Rightarrow> [] | Some h \<Rightarrow> h"
  let ?entry = "\<lparr>msg_from = JStr nm, msg_message = plaintext,
                      msg_timestamp = (if truthy (get_prop bdy ''timestamp'')
                                       then the (get_prop bdy ''timestamp'')
                                       else JStr (toISOString env now)),
                      msg_direction = ''incoming''\<rparr>"
  let ?fr' = "fr\<lparr>conversation_history := Some (slice_last 100 (?old @ [?entry])),
                 last_message_at := Some (toISOString env now)\<rparr>"
  assume fr: "friends_dir st (friendFile env nm) = Some fr" and pend: "status fr = ''pending''"
    and len: "length (token fr) \<ge> 20" and nosp: "CHR '' '' \<notin> set (token fr)"
    and ct: "str_includes (case content_type req of None \<Rightarrow> [] | Some c \<Rightarrow> c) ''application/json''"
    and hdr: "authorization req = Some (''Bearer '' @ token fr)"
    and b: "req_body req = Some bdy"
    and f: "get_prop bdy ''from'' = Some (JStr nm)" and v: "isValidName nm"
    and msg: "truthy (get_prop bdy ''message'')"
    and al: "allowed (fst (checkRateLimit now nm (rate_table st)))"
    and d: "(if truthy (get_prop bdy ''encrypted'')
          then map_option JStr (decrypt env (the (get_prop bdy ''message'')) (token fr))
          else Some (the (get_prop bdy ''message''))) = Some p0"
    and pl: "plaintext = (if get_prop bdy ''message_type'' = Some (JStr ''file'')
                     then fileNote env (JStr nm) p0 else p0)"
    and conv: "tostr plaintext \<noteq> None"
    and ts: "truthy (get_prop bdy ''timestamp'') \<longrightarrow> tostr (the (get_prop bdy ''timestamp'')) \<noteq> None"
    and old: "list_all (\<lambda>m. tostr (msg_from m) \<noteq> None \<and> tostr (msg_message m) \<noteq> None
                     \<and> tostr (msg_timestamp m) \<noteq> None) ?old"
  have ne: "bdy \<noteq> JNull" using f by auto
  have tr: "truthy (Some (JStr nm))" using v by (simp add: isValidName_def)
  have va: "valid (verifyBearerToken (authorization req) (token fr))"
    unfolding hdr verifyBearerToken_correct [OF len nosp] by simp
  have au: "authenticateFriend env req bdy (friends_dir st) = Inr (Inr fr)"
    by (rule authenticateFriend_ok [where frm = "JStr nm" and nm = nm])
      (use ne f tr fr pend va in simp_all)
  obtain rc rl where crl: "checkRateLimit now nm (rate_table st) = (rc, rl)"
    by (cases "checkRateLimit now nm (rate_table st)")
  have al': "allowed rc" using al crl by simp
  from handleMessage_delivered [OF b au f v msg crl al' d pl conv ts old refl, of cfg]
  obtain ar st' where hm: "handleMessage env cfg now req st =
           (Inr (\<lparr>statusCode = 200, body = DeliveredBody (remaining rc)\<rparr>, ar), st')"
    and rec: "friends_dir st' (friendFile env nm) = Some ?fr'"
    by blast
  have sv: "serve_post_message env cfg now req st
      = (\<lparr>statusCode = 200, body = DeliveredBody (remaining rc)\<rparr>, st')"
    by (rule serve_post_message_handled [OF ct hm])
  have 1: "fst (serve_post_message env cfg now req st)
           = \<lparr>statusCode = 200,
              body = DeliveredBody (remaining (fst (checkRateLimit now nm (rate_table st))))\<rparr>"
    unfolding sv crl by simp
  have 2: "friends_dir (snd (serve_post_message env cfg now req st)) (friendFile env nm) = Some ?fr'"
    unfolding sv using rec by simp
  have 3: "status ?fr' = ''pending''" using pend by simp
  have 4: "conversation_history ?fr' = Some (slice_last 100 (?old @ [?entry]))" by simp
  have 5: "msg_from ?entry = JStr nm \<and> msg_direction ?entry = ''incoming''
         \<and> msg_message ?entry = plaintext" by simp
  from 1 2 3 4 5
  show "\<exists>fr' entry.
         fst (serve_post_message env cfg now req st)
           = \<lparr>statusCode = 200,
              body = DeliveredBody (remaining (fst (checkRateLimit now nm (rate_table st))))\<rparr>
         \<and> friends_dir (snd (serve_post_message env cfg now req st)) (friendFile env nm) = Some fr'
         \<and> status fr' = ''pending''
         \<and> conversation_history fr' = Some (slice_last 100 (?old @ [entry]))
         \<and> msg_from entry = JStr nm \<and> msg_direction entry = ''incoming''
         \<and> msg_message entry = plaintext"
    by blast
qed

theorem C10_pending_delivers_witness:
  "friends_dir example_state (friendFile example_env ''bob'') = Some bob_pending
   \<and> status bob_pending = ''pending'' \<and> isValidName ''bob''
   \<and> (\<exists>fr' entry.
         fst (serve_post_message example_env example_config 1767227340000
               (post_message (Some (''Bearer '' @ token bob_pending)) (Some (hello_from ''bob'')))
               example_state)
           = \<lparr>statusCode = 200, body = DeliveredBody (Num 9)\<rparr>
         \<and> friends_dir (snd (serve_post_message example_env example_config 1767227340000
               (post_message (Some (''Bearer '' @ token bob_pending)) (Some (hello_from ''bob'')))
               example_state)) (friendFile example_env ''bob'') = Some fr'
         \<and> status fr' = ''pending''
         \<and> conversation_history fr' = Some [entry]
         \<and> msg_from entry = JStr ''bob'' \<and> msg_direction entry = ''incoming''
         \<and> msg_message entry = JStr ''hello'')"
proof -
  let ?req = "post_message (Some (''Bearer '' @ token bob_pending)) (Some (hello_from ''bob''))"
  have rl: "checkRateLimit 1767227340000 ''bob'' (rate_table example_state)
      = (\<lparr>allowed = True, remaining = Num 9\<rparr>,
         [''bob'' \<mapsto> \<lparr>count = 1, windowStart = 1767227340000\<rparr>])"
    by (simp add: checkRateLimit_def example_state_def object_prototype_keys_def
        RATE_LIMIT_MAX_def)
  have v: "isValidName ''bob''" by (simp add: isValidName_def name_characters_def)
  have A: "friends_dir example_state (friendFile example_env ''bob'') = Some bob_pending
     \<and> status bob_pending = ''pending''
     \<and> length (token bob_pending) \<ge> 20 \<and> CHR '' '' \<notin> set (token bob_pending)
     \<and> str_includes (case content_type ?req of None \<Rightarrow> [] | Some c \<Rightarrow> c) ''application/json''
     \<and> authorization ?req = Some (''Bearer '' @ token bob_pending)
     \<and> req_body ?req = Some (hello_from ''bob'')
     \<and> get_prop (hello_from ''bob'') ''from'' = Some (JStr ''bob'') \<and> isValidName ''bob''
     \<and> truthy (get_prop (hello_from ''bob'') ''message'')
     \<and> allowed (fst (checkRateLimit 1767227340000 ''bob'' (rate_table example_state)))
     \<and> (if truthy (get_prop (hello_from ''bob'') ''encrypted'')
          then map_option JStr (decrypt example_env (the (get_prop (hello_from ''bob'') ''message''))
                 (token bob_pending))
          else Some (the (get_prop (hello_from ''bob'') ''message''))) = Some (JStr ''hello'')
     \<and> JStr ''hello'' = (if get_prop (hello_from ''bob'') ''message_type'' = Some (JStr ''file'')
                     then fileNote example_env (JStr ''bob'') (JStr ''hello'') else JStr ''hello'')
     \<and> tostr (JStr ''hello'') \<noteq> None
     \<and> (truthy (get_prop (hello_from ''bob'') ''timestamp'')
          \<longrightarrow> tostr (the (get_prop (hello_from ''bob'') ''timestamp'')) \<noteq> None)
     \<and> list_all (\<lambda>m. tostr (msg_from m) \<noteq> None \<and> tostr (msg_message m) \<noteq> None
                     \<and> tostr (msg_timestamp m) \<noteq> None)
          (case conversation_history bob_pending of None \<Rightarrow> [] | Some h \<Rightarrow> h)"
    unfolding rl using v
    by (simp add: example_state_def bob_pending_def post_message_def hello_from_def
        example_env_def example_friendFile_def)
  have h: "(case conversation_history bob_pending of None \<Rightarrow> [] | Some h \<Rightarrow> h) = []"
    by (simp add: bob_pending_def)
  from C10_pending_delivers [of example_state example_env "''bob''" bob_pending ?req
      "hello_from ''bob''" 1767227340000 "JStr ''hello''" "JStr ''hello''" example_config] A
  obtain fr' entry where
    "fst (serve_post_message example_env example_config 1767227340000 ?req example_state)
       = \<lparr>statusCode = 200, body = DeliveredBody
            (remaining (fst (checkRateLimit 1767227340000 ''bob'' (rate_table example_state))))\<rparr>"
    "friends_dir (snd (serve_post_message example_env example_config 1767227340000 ?req example_state))
       (friendFile example_env ''bob'') = Some fr'"
    "status fr' = ''pending''"
    "conversation_history fr' = Some (slice_last 100
       ((case conversation_history bob_pending of None \<Rightarrow> [] | Some h \<Rightarrow> h) @ [entry]))"
    "msg_from entry = JStr ''bob''" "msg_direction entry = ''incoming''"
    "msg_message entry = JStr ''hello''"
    by blast
  then have "fst (serve_post_message example_env example_config 1767227340000 ?req example_state)
           = \<lparr>statusCode = 200, body = DeliveredBody (Num 9)\<rparr>
         \<and> friends_dir (snd (serve_post_message example_env example_config 1767227340000 ?req
               example_state)) (friendFile example_env ''bob'') = Some fr'
         \<and> status fr' = ''pending''
         \<and> conversation_history fr' = Some [entry]
         \<and> msg_from entry = JStr ''bob'' \<and> msg_direction entry = ''incoming''
         \<and> msg_message entry = JStr ''hello''"
    unfolding rl h by (simp add: slice_last_def)
  then have "\<exists>fr' entry.
         fst (serve_post_message example_env example_config 1767227340000 ?req example_state)
           = \<lparr>statusCode = 200, body = DeliveredBody (Num 9)\<rparr>
         \<and> friends_dir (snd (serve_post_message example_env example_config 1767227340000 ?req
               example_state)) (friendFile example_env ''bob'') = Some fr'
         \<and> status fr' = ''pending''
         \<and> conversation_history fr' = Some [entry]
         \<and> msg_from entry = JStr ''bob'' \<and> msg_direction entry = ''incoming''
         \<and> msg_message entry = JStr ''hello''"
    by blast
  with A v show ?thesis by blast
qed

subsection \<open>The history bound\<close>





section \<open>Encryption\<close>

subsection \<open>Base64 round trip\<close>

lemma byte_div:
  "(x::nat) < 256 \<Longrightarrow> x div 16 < 16" "x < 256 \<Longrightarrow> x div 4 < 64" "x < 256 \<Longrightarrow> x div 64 < 4"
  by (simp_all add: less_mult_imp_div_less)

lemma octets_sextets:
  "\<forall>x \<in> set bs. x < 256 \<Longrightarrow> octets (sextets bs) = bs"
proof (induction bs rule: sextets.induct)
  case 1
  then show ?case by simp
next
  case (2 a)
  then show ?case by simp
next
  case (3 a b)
  then have "a div 4 * 4 + (a mod 4 * 16 + b div 16) div 16 = a"
    and "(a mod 4 * 16 + b div 16) mod 16 * 16 + b mod 16 * 4 div 4 = b"
    using byte_div(1) [of b] by simp_all
  then show ?case by simp
next
  case (4 a b c bs)
  then have "a div 4 * 4 + (a mod 4 * 16 + b div 16) div 16 = a"
    and "(a mod 4 * 16 + b div 16) mod 16 * 16 + (b mod 16 * 4 + c div 64) div 4 = b"
    and "(b mod 16 * 4 + c div 64) mod 4 * 64 + c mod 64 = c"
    using byte_div(1) [of b] byte_div(3) [of c] by simp_all
  with 4 show ?case by simp
qed

lemma sextets_bound:
  "\<forall>x \<in> set bs. x < 256 \<Longrightarrow> \<forall>s \<in> set (sextets bs). s < 64"
proof (induction bs rule: sextets.induct)
  case 1
  then show ?case by simp
next
  case (2 a)
  then show ?case using byte_div(2) [of a] by simp
next
  case (3 a b)
  then show ?case using byte_div(2) [of a] byte_div(1) [of b] by simp
next
  case (4 a b c bs)
  then have "a div 4 < 64" "a mod 4 * 16 + b div 16 < 64" "b mod 16 * 4 + c div 64 < 64"
    "c mod 64 < 64"
    using byte_div(2) [of a] byte_div(1) [of b] byte_div(3) [of c] by simp_all
  with 4 show ?case by simp
qed

lemma index_of_nth:
  "\<lbrakk>distinct xs; n < length xs\<rbrakk> \<Longrightarrow> index_of (xs ! n) xs = Some n"
proof (induction xs arbitrary: n)
  case Nil
  then show ?case by simp
next
  case (Cons x xs)
  show ?case
  proof (cases n)
    case 0
    then show ?thesis by simp
  next
    case (Suc m)
    with Cons.prems have "xs ! m \<in> set xs" "x \<notin> set xs" by auto
    then have "xs ! m \<noteq> x" by auto
    with Cons Suc show ?thesis by simp
  qed
qed

lemma base64_alphabet_props:
  "distinct base64_alphabet" "length base64_alphabet = 64" "CHR ''='' \<notin> set base64_alphabet"
  by (simp_all add: base64_alphabet_def)

lemma unbase64_alphabet:
  "s < 64 \<Longrightarrow> unbase64 (base64_alphabet ! s) = Some s"
  by (simp add: unbase64_def index_of_nth base64_alphabet_props)

lemma alphabet_not_pad: "s < 64 \<Longrightarrow> base64_alphabet ! s \<noteq> CHR ''=''"
  using base64_alphabet_props(2,3) nth_mem [of s base64_alphabet] by metis

lemma map_filter_unbase64:
  "\<forall>s \<in> set ss. s < 64 \<Longrightarrow>
   List.map_filter unbase64 (map (\<lambda>s. base64_alphabet ! s) ss) = ss"
  by (induction ss) (simp_all add: unbase64_alphabet)

lemma takeWhile_pad:
  "\<lbrakk>\<forall>c \<in> set cs. c \<noteq> CHR ''=''; pad = [] \<or> pad = ''='' \<or> pad = ''==''\<rbrakk> \<Longrightarrow>
   takeWhile (\<lambda>c. c \<noteq> CHR ''='') (cs @ pad) = cs"
  by (induction cs) auto

lemma base64_round_trip: "base64_decode (base64_encode b) = b"
proof -
  let ?ss = "sextets (map unat b)"
  let ?cs = "map (\<lambda>s. base64_alphabet ! s) ?ss"
  have bytes: "\<forall>x \<in> set (map unat b). x < 256"
  proof
    fix x assume "x \<in> set (map unat b)"
    then obtain w :: "8 word" where "x = unat w" by auto
    then show "x < 256" using unsigned_less [of w, where 'a = nat] by simp
  qed
  have six: "\<forall>s \<in> set ?ss. s < 64" by (rule sextets_bound [OF bytes])
  then have nopad: "\<forall>c \<in> set ?cs. c \<noteq> CHR ''=''" by (auto simp: alphabet_not_pad)
  have "takeWhile (\<lambda>c. c \<noteq> CHR ''='') (base64_encode b) = ?cs"
    unfolding base64_encode_def by (rule takeWhile_pad [OF nopad]) simp
  then have "base64_decode (base64_encode b) = map of_nat (octets (List.map_filter unbase64 ?cs))"
    by (simp add: base64_decode_def)
  also have "\<dots> = map of_nat (octets ?ss)" by (simp only: map_filter_unbase64 [OF six])
  also have "\<dots> = map of_nat (map unat b)" by (simp only: octets_sextets [OF bytes])
  also have "\<dots> = b" by (simp add: comp_def)
  finally show ?thesis .
qed

subsection \<open>UTF-8 round trip\<close>

lemma digits64:
  fixes n :: nat
  obtains q r where "n = q * 64 + r" "r < 64" "n div 64 = q" "n mod 64 = r"
proof
  show "n = n div 64 * 64 + n mod 64" by simp
  show "n mod 64 < 64" by simp
qed simp_all

lemma decode1: "b < 0x80 \<Longrightarrow> utf8_code_points (b # rest) = b # utf8_code_points rest"
  by simp

lemma decode2:
  "\<lbrakk>2 \<le> q; q < 32; r < 64\<rbrakk> \<Longrightarrow>
   utf8_code_points ((0xC0 + q) # (0x80 + r) # rest) = (q * 64 + r) # utf8_code_points rest"
  by (simp add: is_continuation_def)

lemma decode3:
  "\<lbrakk>q < 16; r1 < 64; r < 64; q = 0 \<longrightarrow> 32 \<le> r1; q = 13 \<longrightarrow> r1 < 32\<rbrakk> \<Longrightarrow>
   utf8_code_points ((0xE0 + q) # (0x80 + r1) # (0x80 + r) # rest)
     = (q * 4096 + r1 * 64 + r) # utf8_code_points rest"
  by (auto simp: is_continuation_def)

lemma decode4:
  "\<lbrakk>q < 5; r2 < 64; r1 < 64; r < 64; q = 0 \<longrightarrow> 16 \<le> r2; q = 4 \<longrightarrow> r2 < 16\<rbrakk> \<Longrightarrow>
   utf8_code_points ((0xF0 + q) # (0x80 + r2) # (0x80 + r1) # (0x80 + r) # rest)
     = (q * 262144 + r2 * 4096 + r1 * 64 + r) # utf8_code_points rest"
  by (auto simp: is_continuation_def)

lemma utf8_bytes_decode:
  assumes "cp < 0x110000 \<and> \<not> (0xD800 \<le> cp \<and> cp < 0xE000)"
  shows "utf8_code_points (utf8_bytes cp @ rest) = cp # utf8_code_points rest"
proof -
  obtain m r where m: "cp = m * 64 + r" "r < 64" "cp div 64 = m" "cp mod 64 = r"
    by (rule digits64)
  obtain q r1 where q: "m = q * 64 + r1" "r1 < 64" "m div 64 = q" "m mod 64 = r1"
    by (rule digits64)
  obtain t r2 where t: "q = t * 64 + r2" "r2 < 64" "q div 64 = t" "q mod 64 = r2"
    by (rule digits64)
  have d4096: "cp div 4096 = q" using div_mult2_eq [of cp 64 64] m(3) q(3) by simp
  have d262144: "cp div 262144 = t" using div_mult2_eq [of cp 4096 64] d4096 t(3) by simp
  consider "cp < 0x80" | "0x80 \<le> cp" "cp < 0x800" | "0x800 \<le> cp" "cp < 0x10000"
    | "0x10000 \<le> cp" by linarith
  then show ?thesis
  proof cases
    case 1
    then show ?thesis by (simp add: utf8_bytes_def)
  next
    case 2
    then have "2 \<le> m" "m < 32" using m(1,2) by linarith+
    from decode2 [OF this m(2), of rest] 2 show ?thesis
      by (simp add: utf8_bytes_def m(3,4)) (simp add: m(1))
  next
    case 3
    have nosur: "\<not> (0xD800 \<le> cp \<and> cp < 0xE000)" using assms by simp
    have "q < 16" using 3 m(1,2) q(1,2) by linarith
    moreover have "q = 0 \<longrightarrow> 32 \<le> r1" using 3 m(1,2) q(1,2) by auto
    moreover have "q = 13 \<longrightarrow> r1 < 32" using nosur 3 m(1,2) q(1,2) by auto
    ultimately have "utf8_code_points ((0xE0 + q) # (0x80 + r1) # (0x80 + r) # rest)
        = (q * 4096 + r1 * 64 + r) # utf8_code_points rest"
      using q(2) m(2) by (intro decode3) auto
    moreover have "q * 4096 + r1 * 64 + r = cp" using m(1) q(1) by simp
    ultimately show ?thesis using 3 by (simp add: utf8_bytes_def d4096 m(3,4) q(4))
  next
    case 4
    have lt: "cp < 0x110000" using assms by simp
    have "t < 5" using lt m(1,2) q(1,2) t(1,2) by linarith
    moreover have "t = 0 \<longrightarrow> 16 \<le> r2" using 4 m(1,2) q(1,2) t(1,2) by auto
    moreover have "t = 4 \<longrightarrow> r2 < 16" using lt m(1,2) q(1,2) t(1,2) by auto
    ultimately have "utf8_code_points ((0xF0 + t) # (0x80 + r2) # (0x80 + r1) # (0x80 + r) # rest)
        = (t * 262144 + r2 * 4096 + r1 * 64 + r) # utf8_code_points rest"
      using t(2) q(2) m(2) by (intro decode4) auto
    moreover have "t * 262144 + r2 * 4096 + r1 * 64 + r = cp" using m(1) q(1) t(1) by simp
    ultimately show ?thesis
      using 4 by (simp add: utf8_bytes_def d4096 d262144 m(3,4) q(4) t(4))
  qed
qed

lemma utf8_bytes_bound:
  assumes "cp < 0x110000" "b \<in> set (utf8_bytes cp)"
  shows "b < 256"
proof -
  have "cp div 64 < 32" if "cp < 0x800" using that by (simp add: less_mult_imp_div_less)
  moreover have "cp div 4096 < 16" if "cp < 0x10000" using that by (simp add: less_mult_imp_div_less)
  moreover have "cp div 262144 < 5" using assms(1) by (simp add: less_mult_imp_div_less)
  moreover have "cp mod 64 < 64" "cp div 64 mod 64 < 64" "cp div 4096 mod 64 < 64" by simp_all
  ultimately show ?thesis using assms(2)
    by (auto simp: utf8_bytes_def split: if_splits)
qed

lemma utf8_code_points_round_trip:
  "\<forall>cp \<in> set cps. cp < 0x110000 \<and> \<not> (0xD800 \<le> cp \<and> cp < 0xE000) \<Longrightarrow>
   utf8_code_points (concat (map utf8_bytes cps)) = cps"
  by (induction cps) (simp_all add: utf8_bytes_decode)

subsection \<open>UTF-16 code units and code points\<close>

lemma code_points_scalar:
  "\<lbrakk>well_formed_units us; \<forall>u \<in> set us. u < 0x10000\<rbrakk> \<Longrightarrow>
   \<forall>cp \<in> set (code_points us). cp < 0x110000 \<and> \<not> (0xD800 \<le> cp \<and> cp < 0xE000)"
proof (induction us rule: code_points.induct)
  case 1
  then show ?case by simp
next
  case (2 u)
  then show ?case by (auto simp: is_high_surrogate_def is_low_surrogate_def)
next
  case (3 u l us)
  show ?case
  proof (cases "is_high_surrogate u")
    case True
    with 3 have low: "is_low_surrogate l" and wf: "well_formed_units us"
      and rest: "\<forall>u \<in> set us. u < 0x10000" by simp_all
    have "(u - 0xD800) < 1024" "(l - 0xDC00) < 1024"
      using True low by (auto simp: is_high_surrogate_def is_low_surrogate_def)
    then have "0x10000 + (u - 0xD800) * 1024 + (l - 0xDC00) < 0x110000"
      "0xE000 \<le> 0x10000 + (u - 0xD800) * 1024 + (l - 0xDC00)" by simp_all
    with 3(1) [OF True low wf rest] True low show ?thesis by simp
  next
    case False
    with 3 have nl: "\<not> is_low_surrogate u" and wf: "well_formed_units (l # us)"
      and rest: "\<forall>u \<in> set (l # us). u < 0x10000" and u: "u < 0x10000" by simp_all
    from 3(4) [OF False nl wf rest] False nl u show ?thesis
      by (auto simp: is_high_surrogate_def is_low_surrogate_def)
  qed
qed

lemma code_units_pair:
  assumes "is_high_surrogate u" "is_low_surrogate l"
  shows "code_units (0x10000 + (u - 0xD800) * 1024 + (l - 0xDC00)) = [u, l]"
proof -
  define a where "a = u - 0xD800"
  define b where "b = l - 0xDC00"
  have a: "u = 0xD800 + a" "a < 1024"
    using assms(1) unfolding is_high_surrogate_def a_def by linarith+
  have b: "l = 0xDC00 + b" "b < 1024"
    using assms(2) unfolding is_low_surrogate_def b_def by linarith+
  have dm: "(a * 1024 + b) div 1024 = a" "(a * 1024 + b) mod 1024 = b" using b(2) by simp_all
  have ge: "\<not> 0x10000 + a * 1024 + b < (0x10000::nat)" by simp
  have sub: "0x10000 + a * 1024 + b - 0x10000 = a * 1024 + b" by simp
  have "code_units (0x10000 + a * 1024 + b) = [0xD800 + a, 0xDC00 + b]"
    unfolding code_units_def if_not_P [OF ge] sub dm ..
  then show ?thesis unfolding a_def b_def using a(1) b(1) by simp
qed


lemma code_units_code_points:
  "\<lbrakk>well_formed_units us; \<forall>u \<in> set us. u < 0x10000\<rbrakk> \<Longrightarrow>
   concat (map code_units (code_points us)) = us"
proof (induction us rule: code_points.induct)
  case 1
  then show ?case by simp
next
  case (2 u)
  then show ?case by (simp add: code_units_def)
next
  case (3 u l us)
  show ?case
  proof (cases "is_high_surrogate u")
    case True
    with 3 have low: "is_low_surrogate l" and wf: "well_formed_units us"
      and rest: "\<forall>u \<in> set us. u < 0x10000" by simp_all
    have "code_points (u # l # us)
        = (0x10000 + (u - 0xD800) * 1024 + (l - 0xDC00)) # code_points us"
      using True low by simp
    with 3(1) [OF True low wf rest] show ?thesis
      by (simp add: code_units_pair [OF True low])
  next
    case False
    with 3 have nl: "\<not> is_low_surrogate u" and wf: "well_formed_units (l # us)"
      and rest: "\<forall>u \<in> set (l # us). u < 0x10000" and u: "u < 0x10000" by simp_all
    from 3(4) [OF False nl wf rest] False nl u show ?thesis
      by (simp add: code_units_def)
  qed
qed

lemma unat_units: "\<forall>u \<in> set (map unat (s :: jstring)). u < 0x10000"
proof
  fix u assume "u \<in> set (map unat s)"
  then obtain w :: "16 word" where "u = unat w" by auto
  then show "u < 0x10000" using unsigned_less [of w, where 'a = nat] by simp
qed

lemma unat_of_nat_byte: "\<forall>b \<in> set bs. b < 256 \<Longrightarrow> map unat (map of_nat bs :: buffer) = bs"
proof (induction bs)
  case Nil
  then show ?case by simp
next
  case (Cons b bs)
  then have "b < 256" by simp
  then have "unat (of_nat b :: 8 word) = b" by (simp add: unat_of_nat)
  with Cons show ?case by simp
qed

lemma utf8_decode_encode:
  assumes "isWellFormed s"
  shows "utf8_decode (utf8_encode s) = s"
proof -
  let ?us = "map unat s"
  let ?cps = "code_points ?us"
  have wf: "well_formed_units ?us" using assms by (simp add: isWellFormed_def)
  have sc: "\<forall>cp \<in> set ?cps. cp < 0x110000 \<and> \<not> (0xD800 \<le> cp \<and> cp < 0xE000)"
    by (rule code_points_scalar [OF wf unat_units])
  have bytes: "\<forall>b \<in> set (concat (map utf8_bytes ?cps)). b < 256"
    using sc utf8_bytes_bound by auto
  have "map unat (utf8_encode s) = concat (map utf8_bytes ?cps)"
    unfolding utf8_encode_def by (rule unat_of_nat_byte [OF bytes])
  then have "utf8_decode (utf8_encode s)
      = map of_nat (concat (map code_units (utf8_code_points (concat (map utf8_bytes ?cps)))))"
    by (simp add: utf8_decode_def)
  also have "\<dots> = map of_nat (concat (map code_units ?cps))"
    by (simp only: utf8_code_points_round_trip [OF sc])
  also have "\<dots> = map of_nat ?us" by (simp only: code_units_code_points [OF wf unat_units])
  also have "\<dots> = s" by (simp add: comp_def)
  finally show ?thesis .
qed

subsection \<open>Packing and unpacking\<close>

lemma unpack:
  assumes "length iv = 12" "length tag = 16"
  shows "subarray (iv @ enc @ tag) 0 (int IV_LENGTH) = iv"
    and "subarray (iv @ enc @ tag) (int (length (iv @ enc @ tag)) - int TAG_LENGTH)
           (int (length (iv @ enc @ tag))) = tag"
    and "subarray (iv @ enc @ tag) (int IV_LENGTH)
           (int (length (iv @ enc @ tag)) - int TAG_LENGTH) = enc"
  using assms
  by (simp_all add: subarray_def relative_index_def IV_LENGTH_def TAG_LENGTH_def Let_def
      nat_add_distrib)

text \<open>
  With a library that decrypts what it encrypted, \<open>decryptMessage\<close> returns the plaintext
  as it comes back from its UTF-8 bytes.
\<close>

lemma decrypt_encrypted:
  assumes lib: "crypto_correct lib" and iv: "length iv = 12"
  shows "decryptMessage lib (encryptMessage lib iv p s) s = Some (utf8_decode (utf8_encode p))"
proof -
  let ?key = "deriveKey lib s"
  let ?ct = "gcm_encrypt lib ?key iv (utf8_encode p)"
  have key: "length ?key = 32" using lib by (simp add: crypto_correct_def deriveKey_def)
  from lib key iv have tag: "length (snd ?ct) = 16"
    and dec: "gcm_decrypt lib ?key iv (snd ?ct) (fst ?ct) = Some (utf8_encode p)"
    unfolding crypto_correct_def by blast+
  have enc: "encryptMessage lib iv p s = base64_encode (iv @ fst ?ct @ snd ?ct)"
    by (simp add: encryptMessage_def Let_def split_beta)
  show ?thesis
    unfolding enc decryptMessage_def Let_def base64_round_trip unpack [OF iv tag] dec
    by simp
qed

lemma toy_crypto_correct: "crypto_correct toy_crypto"
  by (auto simp: crypto_correct_def toy_crypto_def comp_def)

text \<open>
  C1 as stated fails for a plaintext that holds a surrogate without its partner: its
  UTF-8 encoding is that of U+FFFD, which is what comes back.
\<close>

theorem C1_lone_surrogate_counterexample:
  "utf8_encode lone_surrogate = [0xEF, 0xBF, 0xBD]
   \<and> utf8_decode (utf8_encode lone_surrogate) = [0xFFFD]
   \<and> decryptMessage toy_crypto
         (encryptMessage toy_crypto example_iv lone_surrogate example_secret) example_secret
       = Some [0xFFFD]
   \<and> lone_surrogate \<noteq> [0xFFFD]"
proof -
  have e: "utf8_encode lone_surrogate = [0xEF, 0xBF, 0xBD]"
    by (simp add: utf8_encode_def lone_surrogate_def is_high_surrogate_def utf8_bytes_def)
  have d: "utf8_decode [0xEF, 0xBF, 0xBD] = [0xFFFD]"
    by (simp add: utf8_decode_def is_continuation_def code_units_def)
  have iv: "length example_iv = 12" by (simp add: example_iv_def)
  show ?thesis
    unfolding decrypt_encrypted [OF toy_crypto_correct iv] e d
    by (simp add: lone_surrogate_def)
qed

text \<open>
  C1, amended. For every secret \<open>s\<close> and every plaintext string \<open>p\<close> without unpaired
  surrogates, \<open>decryptMessage(encryptMessage(p, s), s)\<close> returns exactly \<open>p\<close>, whatever
  12-byte nonce \<open>crypto.randomBytes\<close> supplied; \<open>encryptMessage\<close> returns the base64 text of
  the nonce, the ciphertext and the 16-byte tag, in this order. This rests on Node's
  cipher undoing its own encryption under one key and nonce.
\<close>

theorem C1_round_trip:
  "crypto_correct lib \<and> length iv = IV_LENGTH \<and> isWellFormed p \<longrightarrow>
     decryptMessage lib (encryptMessage lib iv p s) s = Some p
     \<and> encryptMessage lib iv p s
         = base64_encode (iv @ fst (gcm_encrypt lib (deriveKey lib s) iv (utf8_encode p))
                             @ snd (gcm_encrypt lib (deriveKey lib s) iv (utf8_encode p)))
     \<and> length (snd (gcm_encrypt lib (deriveKey lib s) iv (utf8_encode p))) = TAG_LENGTH"
proof (intro impI; elim conjE)
  assume lib: "crypto_correct lib" and iv: "length iv = IV_LENGTH" and wf: "isWellFormed p"
  have iv12: "length iv = 12" using iv by (simp add: IV_LENGTH_def)
  have key: "length (deriveKey lib s) = 32" using lib by (simp add: crypto_correct_def deriveKey_def)
  from lib key iv12 have tag: "length (snd (gcm_encrypt lib (deriveKey lib s) iv (utf8_encode p))) = 16"
    unfolding crypto_correct_def by blast
  have rt: "decryptMessage lib (encryptMessage lib iv p s) s = Some p"
    unfolding decrypt_encrypted [OF lib iv12] utf8_decode_encode [OF wf] ..
  have enc: "encryptMessage lib iv p s
         = base64_encode (iv @ fst (gcm_encrypt lib (deriveKey lib s) iv (utf8_encode p))
                             @ snd (gcm_encrypt lib (deriveKey lib s) iv (utf8_encode p)))"
    by (simp add: encryptMessage_def Let_def split_beta)
  from rt enc tag
  show "decryptMessage lib (encryptMessage lib iv p s) s = Some p
     \<and> encryptMessage lib iv p s
         = base64_encode (iv @ fst (gcm_encrypt lib (deriveKey lib s) iv (utf8_encode p))
                             @ snd (gcm_encrypt lib (deriveKey lib s) iv (utf8_encode p)))
     \<and> length (snd (gcm_encrypt lib (deriveKey lib s) iv (utf8_encode p))) = TAG_LENGTH"
    by (simp add: TAG_LENGTH_def)
qed

theorem C1_round_trip_witness:
  "crypto_correct toy_crypto \<and> length example_iv = IV_LENGTH \<and> isWellFormed example_plaintext
   \<and> decryptMessage toy_crypto
        (encryptMessage toy_crypto example_iv example_plaintext example_secret) example_secret
       = Some example_plaintext"
proof -
  have iv: "length example_iv = IV_LENGTH" by (simp add: example_iv_def IV_LENGTH_def)
  have wf: "isWellFormed example_plaintext"
    by (simp add: isWellFormed_def example_plaintext_def is_high_surrogate_def
        is_low_surrogate_def)
  from C1_round_trip [of toy_crypto example_iv example_plaintext example_secret]
    toy_crypto_correct iv wf
  show ?thesis by blast
qed

subsection \<open>Wrong keys\<close>


text \<open>Secrets of any length go into 32 bytes, so two of them share a key.\<close>

lemma utf8_encode_replicate: "utf8_encode (replicate n 0x61) = replicate n 0x61"
proof -
  have cp: "code_points (replicate n 97) = replicate n 97" for n
  proof (induction n rule: less_induct)
    case (less n)
    show ?case
    proof (cases n)
      case 0
      then show ?thesis by simp
    next
      case (Suc m)
      show ?thesis
      proof (cases m)
        case 0
        with Suc show ?thesis by (simp add: is_high_surrogate_def is_low_surrogate_def)
      next
        case (Suc k)
        with \<open>n = Suc m\<close> less [of m] show ?thesis
          by (simp add: is_high_surrogate_def is_low_surrogate_def)
      qed
    qed
  qed
  have u: "map unat (replicate n (0x61 :: 16 word)) = replicate n 97" by simp
  have b: "concat (map utf8_bytes (replicate n 97)) = replicate n 97"
    by (induction n) (simp_all add: utf8_bytes_def)
  show ?thesis unfolding utf8_encode_def u cp b by simp
qed





end
